theory Spec2Isabelle
  imports Main "HOL-Library.Multiset"
begin

section \<open>Errors\<close>

text \<open>
  Every error the driver returns is a value of \<open>error\<close>; one constructor per
  \<^verbatim>\<open>fmt.Errorf\<close> site of the sources, carrying the wrapped cause where the message has
  one. \<open>External\<close> is an error produced by a collaborator that is not part of these
  sources (the PCI library, the API client, the CDI handler, the checkpoint manager,
  the CNI runtime). \<open>Panic\<close> is a Go run-time panic (an index out of range, a nil
  dereference): the call does not return at all.
\<close>

datatype error =
    External string
  | ErrGettingPCIInfo error
  | ErrCouldNotRetrievePCIDevices
  | ErrGettingVFList error
  | ErrClaimNotYetAllocated
  | ErrGettingOpaqueDeviceConfigs error
  | ErrRequestedNotAllocatable string
  | ErrGettingConfigResultsMap error
  | ErrNotRecognizedConfiguration
  | ErrNormalizing error
  | ErrValidating error
  | ErrApplying error
  | ErrDeviceNotFound string
  | ErrGettingNetAttachDef string error
  | ErrConvertingNetConf error
  | ErrPrepareFailed error
  | ErrNoPreparedDevices
  | ErrCreateCDISpecFile error
  | ErrDeleteCDISpecFile error
  | ErrUnprepareFailed error
  | ErrSyncFromCheckpoint error
  | ErrSyncToCheckpoint error
  | ErrNoPodInfo string
  | ErrMultiplePods string
  | ErrPreparingDevicesForClaim string error
  | ErrSettingPodManager string error
  | ErrUnpreparingDevicesForClaim string error
  | ErrDeletingClaimFromPodManager string error
  | ErrAttachNetwork error
  | ErrGettingNetworkNamespace string string
  | ErrDetachNetwork string string string error
  | Panic string

section \<open>Go library functions\<close>

text \<open>
  \<^verbatim>\<open>strings.ReplaceAll(s, old, new)\<close> where \<open>old\<close> and \<open>new\<close> are one byte each, which
  is every use in these sources (\<^verbatim>\<open>":"\<close>, \<^verbatim>\<open>"."\<close>, \<^verbatim>\<open>"-"\<close>, \<^verbatim>\<open>"_"\<close>): each occurrence of
  the byte is replaced.
\<close>

definition ReplaceAll :: "string \<Rightarrow> char \<Rightarrow> char \<Rightarrow> string" where
  "ReplaceAll s old new = map (\<lambda>c. if c = old then new else c) s"

text \<open>
  \<^verbatim>\<open>strconv.ParseInt(s, 16, 64)\<close>: an optional sign, then at least one hexadecimal digit
  and nothing else (no prefix, no underscore: the base is given), the value within the
  range of \<^verbatim>\<open>int64\<close>. The sources only test \<^verbatim>\<open>err != nil\<close>, so every error is \<open>None\<close>.
\<close>

definition hexDigit :: "char \<Rightarrow> nat option" where
  "hexDigit c =
     (let n = (of_char c :: nat) in
      if 48 \<le> n \<and> n \<le> 57 then Some (n - 48)
      else if 97 \<le> n \<and> n \<le> 102 then Some (n - 87)
      else if 65 \<le> n \<and> n \<le> 70 then Some (n - 55)
      else None)"

fun parseDigits :: "nat \<Rightarrow> string \<Rightarrow> nat option" where
  "parseDigits n [] = Some n"
| "parseDigits n (c # cs) =
     (case hexDigit c of
        None \<Rightarrow> None
      | Some d \<Rightarrow> parseDigits (n * 16 + d) cs)"

definition ParseUint :: "string \<Rightarrow> nat option" where
  "ParseUint s =
     (if s = [] then None
      else case parseDigits 0 s of
             None \<Rightarrow> None
           | Some n \<Rightarrow> if n < 2 ^ 64 then Some n else None)"

definition ParseInt :: "string \<Rightarrow> int option" where
  "ParseInt s =
     (case s of
        [] \<Rightarrow> None
      | c # cs \<Rightarrow>
          let neg = (c = CHR ''-'');
              s' = (if c = CHR ''+'' \<or> c = CHR ''-'' then cs else s)
          in case ParseUint s' of
               None \<Rightarrow> None
             | Some un \<Rightarrow>
                 if \<not> neg \<and> un \<ge> 2 ^ 63 then None
                 else if neg \<and> un > 2 ^ 63 then None
                 else Some (if neg then - (int un) else int un))"

section \<open>SR-IOV device discovery\<close>

text \<open>
  The PCI library's device: its address and the identifiers of its class, vendor and
  product (\<^verbatim>\<open>device.Class.ID\<close>, \<^verbatim>\<open>device.Vendor.ID\<close>, \<^verbatim>\<open>device.Product.ID\<close>).
\<close>

record PCIDevice =
  Address :: string
  Class_ID :: string
  Vendor_ID :: string
  Product_ID :: string

text \<open>
  \<^verbatim>\<open>HelpersInterface\<close>, the part \<^verbatim>\<open>DiscoverSriovDevices\<close> calls. The process-wide
  variable \<^verbatim>\<open>helpers\<close> holds one; here it is an argument. It stands for the fixed PCI
  and sysfs state of the node.
\<close>

record Helpers =
  PCI :: "error + PCIDevice list"
  IsSriovVF :: "string \<Rightarrow> bool"
  TryGetInterfaceName :: "string \<Rightarrow> string"
  GetNicSriovMode :: "string \<Rightarrow> string"
  GetVFList :: "string \<Rightarrow> error + string list"

record PFInfo =
  PciAddress :: string
  NetName :: string
  VendorID :: string
  DeviceID :: string
  PFAddress :: string
  EswitchMode :: string

text \<open>
  The orchestrator's device: \<^verbatim>\<open>resourceapi.Device\<close> with its attribute map. An
  attribute holds a pointer to a string (\<^verbatim>\<open>StringValue *string\<close>); the other value
  kinds are never set by the driver.
\<close>

record DeviceAttribute =
  StringValue :: "string option"

record Device =
  Name :: string
  Attributes :: "string \<rightharpoonup> DeviceAttribute"

type_synonym AllocatableDevices = "string \<rightharpoonup> Device"

text \<open>
  The attribute keys of package \<^verbatim>\<open>consts\<close>, which is not among the sources: they are
  parameters. Go rejects a map literal with two equal constant keys, so the five keys
  are pairwise distinct in every build.
\<close>

record Consts =
  AttributeVendorID :: string
  AttributeDeviceID :: string
  AttributePciAddress :: string
  AttributePFName :: string
  AttributeEswitchMode :: string

definition NetClass :: int where
  "NetClass = 2"

text \<open>The first loop of \<^verbatim>\<open>DiscoverSriovDevices\<close>: the physical functions, in order.\<close>

fun collectPFs :: "Helpers \<Rightarrow> PCIDevice list \<Rightarrow> PFInfo list \<Rightarrow> PFInfo list" where
  "collectPFs h [] pfList = pfList"
| "collectPFs h (device # devices) pfList =
     (case ParseInt (Class_ID device) of
        None \<Rightarrow> collectPFs h devices pfList
      | Some devClass \<Rightarrow>
          if devClass \<noteq> NetClass then collectPFs h devices pfList
          else if IsSriovVF h (Address device) then collectPFs h devices pfList
          else
            let pfNetName = TryGetInterfaceName h (Address device) in
            if pfNetName = [] then collectPFs h devices pfList
            else
              let eswitchMode = GetNicSriovMode h (Address device) in
              collectPFs h devices
                (pfList @
                 [\<lparr>PciAddress = Address device,
                   NetName = pfNetName,
                   VendorID = Vendor_ID device,
                   DeviceID = Product_ID device,
                   PFAddress = Address device,
                   EswitchMode = eswitchMode\<rparr>]))"

definition deviceName :: "string \<Rightarrow> string" where
  "deviceName vfPciAddress =
     ReplaceAll (ReplaceAll vfPciAddress (CHR '':'') (CHR ''-'')) (CHR ''.'') (CHR ''-'')"

definition vfDevice :: "Consts \<Rightarrow> PFInfo \<Rightarrow> string \<Rightarrow> Device" where
  "vfDevice k pfInfo vfPciAddress =
     \<lparr>Name = deviceName vfPciAddress,
      Attributes =
        [AttributeVendorID k \<mapsto> \<lparr>StringValue = Some (VendorID pfInfo)\<rparr>,
         AttributeDeviceID k \<mapsto> \<lparr>StringValue = Some (DeviceID pfInfo)\<rparr>,
         AttributePciAddress k \<mapsto> \<lparr>StringValue = Some vfPciAddress\<rparr>,
         AttributePFName k \<mapsto> \<lparr>StringValue = Some (NetName pfInfo)\<rparr>,
         AttributeEswitchMode k \<mapsto> \<lparr>StringValue = Some (EswitchMode pfInfo)\<rparr>]\<rparr>"

text \<open>The inner loop over the virtual functions of one physical function.\<close>

fun addVFs :: "Consts \<Rightarrow> PFInfo \<Rightarrow> string list \<Rightarrow> AllocatableDevices \<Rightarrow> AllocatableDevices" where
  "addVFs k pfInfo [] resourceList = resourceList"
| "addVFs k pfInfo (vfPciAddress # vfList) resourceList =
     addVFs k pfInfo vfList
       (resourceList(deviceName vfPciAddress \<mapsto> vfDevice k pfInfo vfPciAddress))"

text \<open>The second loop: a failing \<^verbatim>\<open>GetVFList\<close> returns at once, with no catalog.\<close>

fun processPFs ::
  "Helpers \<Rightarrow> Consts \<Rightarrow> PFInfo list \<Rightarrow> AllocatableDevices \<Rightarrow> error + AllocatableDevices" where
  "processPFs h k [] resourceList = Inr resourceList"
| "processPFs h k (pfInfo # pfList) resourceList =
     (case GetVFList h (PFAddress pfInfo) of
        Inl err \<Rightarrow> Inl (ErrGettingVFList err)
      | Inr vfList \<Rightarrow> processPFs h k pfList (addVFs k pfInfo vfList resourceList))"

definition DiscoverSriovDevices :: "Helpers \<Rightarrow> Consts \<Rightarrow> error + AllocatableDevices" where
  "DiscoverSriovDevices h k =
     (case PCI h of
        Inl err \<Rightarrow> Inl (ErrGettingPCIInfo err)
      | Inr devices \<Rightarrow>
          if length devices = 0 then Inl ErrCouldNotRetrievePCIDevices
          else processPFs h k (collectPFs h devices []) Map.empty)"

text \<open>
  What the first loop keeps: a device whose class parses to the network class, that is
  not itself a virtual function, and that has an interface name.
\<close>

definition keptAsPF :: "Helpers \<Rightarrow> PCIDevice \<Rightarrow> bool" where
  "keptAsPF h device \<longleftrightarrow>
     ParseInt (Class_ID device) = Some NetClass \<and>
     \<not> IsSriovVF h (Address device) \<and>
     TryGetInterfaceName h (Address device) \<noteq> []"

definition pfInfoOf :: "Helpers \<Rightarrow> PCIDevice \<Rightarrow> PFInfo" where
  "pfInfoOf h device =
     \<lparr>PciAddress = Address device,
      NetName = TryGetInterfaceName h (Address device),
      VendorID = Vendor_ID device,
      DeviceID = Product_ID device,
      PFAddress = Address device,
      EswitchMode = GetNicSriovMode h (Address device)\<rparr>"

text \<open>
  The virtual functions \<^verbatim>\<open>GetVFList\<close> lists for a device, and every pair of a kept
  physical function and one of its virtual functions, in the order of the two loops.
\<close>

definition vfsOf :: "Helpers \<Rightarrow> PCIDevice \<Rightarrow> string list" where
  "vfsOf h device = (case GetVFList h (Address device) of Inl _ \<Rightarrow> [] | Inr vfList \<Rightarrow> vfList)"

definition discoveredVFs :: "Helpers \<Rightarrow> PCIDevice list \<Rightarrow> (PCIDevice \<times> string) list" where
  "discoveredVFs h devices =
     concat (map (\<lambda>device. map (Pair device) (vfsOf h device)) (filter (keptAsPF h) devices))"

definition vfEntries :: "Helpers \<Rightarrow> Consts \<Rightarrow> PFInfo list \<Rightarrow> (string \<times> Device) list" where
  "vfEntries h k pfList =
     concat (map (\<lambda>pfInfo. map (\<lambda>vf. (deviceName vf, vfDevice k pfInfo vf))
        (case GetVFList h (PFAddress pfInfo) of Inl _ \<Rightarrow> [] | Inr vfList \<Rightarrow> vfList)) pfList)"

subsection \<open>A node with two physical functions\<close>

text \<open>
  Six PCI devices: a physical function with two virtual functions, a storage
  controller, a virtual function, a device whose class is not hexadecimal, a network
  device with no interface, and a second physical function with one virtual function.
\<close>

definition example_devices :: "PCIDevice list" where
  "example_devices =
     [\<lparr>Address = ''0000:01:00.0'', Class_ID = ''02'', Vendor_ID = ''8086'', Product_ID = ''1572''\<rparr>,
      \<lparr>Address = ''0000:00:1f.2'', Class_ID = ''01'', Vendor_ID = ''8086'', Product_ID = ''2922''\<rparr>,
      \<lparr>Address = ''0000:01:02.0'', Class_ID = ''02'', Vendor_ID = ''8086'', Product_ID = ''154c''\<rparr>,
      \<lparr>Address = ''0000:03:00.0'', Class_ID = ''zz'', Vendor_ID = ''10de'', Product_ID = ''0001''\<rparr>,
      \<lparr>Address = ''0000:04:00.0'', Class_ID = ''02'', Vendor_ID = ''14e4'', Product_ID = ''165f''\<rparr>,
      \<lparr>Address = ''0000:02:00.0'', Class_ID = ''02'', Vendor_ID = ''15b3'', Product_ID = ''1017''\<rparr>]"

definition example_helpers :: Helpers where
  "example_helpers =
     \<lparr>PCI = Inr example_devices,
      IsSriovVF = (\<lambda>a. a = ''0000:01:02.0''),
      TryGetInterfaceName =
        (\<lambda>a. if a = ''0000:01:00.0'' then ''eth0''
              else if a = ''0000:02:00.0'' then ''eth1'' else []),
      GetNicSriovMode = (\<lambda>a. ''legacy''),
      GetVFList =
        (\<lambda>a. if a = ''0000:01:00.0'' then Inr [''0000:01:02.0'', ''0000:01:02.1'']
              else if a = ''0000:02:00.0'' then Inr [''0000:02:00.1'']
              else Inl (External ''failed to read PF directory''))\<rparr>"

text \<open>The same node when the directory of the second physical function cannot be read.\<close>

definition example_helpers_unreadable :: Helpers where
  "example_helpers_unreadable =
     example_helpers
       \<lparr>GetVFList :=
          (\<lambda>a. if a = ''0000:01:00.0'' then Inr [''0000:01:02.0'', ''0000:01:02.1'']
                else Inl (External ''failed to read PF directory''))\<rparr>"

definition example_consts :: Consts where
  "example_consts =
     \<lparr>AttributeVendorID = ''vendor'',
      AttributeDeviceID = ''deviceID'',
      AttributePciAddress = ''pciAddress'',
      AttributePFName = ''PFName'',
      AttributeEswitchMode = ''EswitchMode''\<rparr>"

section \<open>Resource claims\<close>

text \<open>
  The parts of the orchestrator's \<^verbatim>\<open>ResourceClaim\<close> the driver reads. The path
  \<^verbatim>\<open>claim.Status.Allocation.Devices.Results\<close> is the field \<open>Devices_Results\<close> of the
  allocation; \<^verbatim>\<open>claim.Status.Allocation\<close> is a pointer, \<open>None\<close> when nil. A Go slice
  is a list: the nil slice is the empty list.
\<close>

record DeviceRequestAllocationResult =
  Request :: string
  Pool :: string
  Device :: string

record DeviceAllocationConfiguration =
  Source :: string
  Config_Requests :: "string list"
  Opaque_Driver :: string
  Opaque_Parameters :: string

record AllocationResult =
  Devices_Results :: "DeviceRequestAllocationResult list"
  Devices_Config :: "DeviceAllocationConfiguration list"

record ResourceClaimConsumerReference =
  Consumer_UID :: string
  Consumer_Name :: string

record ResourceClaim =
  UID :: string
  Claim_Name :: string
  Namespace :: string
  Allocation :: "AllocationResult option"
  ReservedFor :: "ResourceClaimConsumerReference list"

text \<open>
  The driver's configuration \<^verbatim>\<open>VfConfig\<close>, and \<^verbatim>\<open>runtime.Object\<close>: an interface value
  holding a pointer, which is what the Go map \<^verbatim>\<open>configResultsMap\<close> compares. The number
  is the address; an object that is not a \<^verbatim>\<open>*VfConfig\<close> is \<open>OtherObj\<close>.
\<close>

record VfConfig =
  NetAttachDefName :: string
  IfName :: string

datatype Object = VfConfigObj nat VfConfig | OtherObj nat

record OpaqueDeviceConfig =
  Requests :: "string list"
  Config :: Object

text \<open>
  \<^verbatim>\<open>map[runtime.Object][]*DeviceRequestAllocationResult\<close> as an association list with
  one entry per key, in the order of first insertion. Go ranges over a map in an order of
  its own, which is a parameter below.
\<close>

type_synonym ConfigResultsMap = "(Object \<times> DeviceRequestAllocationResult list) list"

text \<open>\<^verbatim>\<open>m[k]\<close> of a map of slices: the nil slice for a missing key.\<close>

definition resultsOf :: "ConfigResultsMap \<Rightarrow> Object \<Rightarrow> DeviceRequestAllocationResult list" where
  "resultsOf m k = (case map_of m k of None \<Rightarrow> [] | Some rs \<Rightarrow> rs)"

text \<open>\<^verbatim>\<open>m[k] = append(m[k], &result)\<close>.\<close>

fun appendResult ::
  "Object \<Rightarrow> DeviceRequestAllocationResult \<Rightarrow> ConfigResultsMap \<Rightarrow> ConfigResultsMap" where
  "appendResult k result [] = [(k, [result])]"
| "appendResult k result ((k', rs) # m) =
     (if k' = k then (k', rs @ [result]) # m else (k', rs) # appendResult k result m)"

text \<open>
  The inner loop \<^verbatim>\<open>for _, c := range slices.Backward(configs)\<close>, given the configs
  already in backward order: the first config whose request list is empty or contains
  the request of the result takes the result, and the loop breaks.
\<close>

fun assignResult ::
  "OpaqueDeviceConfig list \<Rightarrow> DeviceRequestAllocationResult \<Rightarrow> ConfigResultsMap \<Rightarrow> ConfigResultsMap" where
  "assignResult [] result m = m"
| "assignResult (c # cs) result m =
     (if length (Requests c) = 0 \<or> Request result \<in> set (Requests c)
      then appendResult (Config c) result m
      else assignResult cs result m)"

text \<open>
  The outer loop over the allocation results: a result whose device is not in the
  catalog ends it with an error.
\<close>

fun assignResults ::
  "AllocatableDevices \<Rightarrow> OpaqueDeviceConfig list \<Rightarrow> DeviceRequestAllocationResult list \<Rightarrow>
   ConfigResultsMap \<Rightarrow> error + ConfigResultsMap" where
  "assignResults alloc configs [] m = Inr m"
| "assignResults alloc configs (result # results) m =
     (case alloc (Device result) of
        None \<Rightarrow> Inl (ErrRequestedNotAllocatable (Device result))
      | Some _ \<Rightarrow> assignResults alloc configs results (assignResult (rev configs) result m))"

text \<open>
  \<^verbatim>\<open>slices.Insert(configs, 0, &OpaqueDeviceConfig{Requests: []string{}, Config:
  DefaultVfConfig()})\<close>. \<^verbatim>\<open>DefaultVfConfig\<close> is not among the sources: the object it
  returns is the parameter \<open>dflt\<close>.
\<close>

definition insertDefault :: "Object \<Rightarrow> OpaqueDeviceConfig list \<Rightarrow> OpaqueDeviceConfig list" where
  "insertDefault dflt configs = \<lparr>Requests = [], Config = dflt\<rparr> # configs"

text \<open>
  \<^verbatim>\<open>DeviceStateManager.getConfigResultsMap\<close> of package devicestate. Its caller has
  checked that the claim is allocated; on a nil allocation the dereference panics.
\<close>

definition getConfigResultsMap ::
  "AllocatableDevices \<Rightarrow> Object \<Rightarrow> OpaqueDeviceConfig list \<Rightarrow> ResourceClaim \<Rightarrow>
   error + ConfigResultsMap" where
  "getConfigResultsMap alloc dflt configs claim =
     (case Allocation claim of
        None \<Rightarrow> Inl (Panic ''nil pointer dereference'')
      | Some a \<Rightarrow> assignResults alloc (insertDefault dflt configs) (Devices_Results a) [])"

text \<open>
  The same two loops as they stand inline in \<^verbatim>\<open>DeviceState.prepareDevices\<close> of package
  state (the checkpoint-backed subsystem), after its own check of the allocation.
\<close>

definition DeviceState_configResultsMap ::
  "AllocatableDevices \<Rightarrow> Object \<Rightarrow> OpaqueDeviceConfig list \<Rightarrow> AllocationResult \<Rightarrow>
   error + ConfigResultsMap" where
  "DeviceState_configResultsMap alloc dflt configs a =
     assignResults alloc (insertDefault dflt configs) (Devices_Results a) []"

text \<open>
  The rule in the words of the specification: scan from the most recently added config
  down to the prepended default; a config matches if its request list is empty or
  contains the request; the first match wins.
\<close>

definition configMatches :: "string \<Rightarrow> OpaqueDeviceConfig \<Rightarrow> bool" where
  "configMatches request c \<longleftrightarrow> Requests c = [] \<or> request \<in> set (Requests c)"

definition firstMatch :: "Object \<Rightarrow> OpaqueDeviceConfig list \<Rightarrow> string \<Rightarrow> OpaqueDeviceConfig option" where
  "firstMatch dflt configs request =
     find (configMatches request) (rev (insertDefault dflt configs))"

text \<open>
  What it is for a map to assign every result to the config the rule selects: the
  buckets together hold each result exactly once, and the bucket of a key holds, in
  order, the results whose first match has that key.
\<close>

definition assignedByFirstMatch ::
  "Object \<Rightarrow> OpaqueDeviceConfig list \<Rightarrow> DeviceRequestAllocationResult list \<Rightarrow> ConfigResultsMap \<Rightarrow> bool" where
  "assignedByFirstMatch dflt configs results m \<longleftrightarrow>
     mset (concat (map snd m)) = mset results \<and>
     (\<forall>k. resultsOf m k =
        filter (\<lambda>r. \<exists>c. firstMatch dflt configs (Request r) = Some c \<and> Config c = k) results)"

subsection \<open>A claim for two virtual functions\<close>

text \<open>
  The catalog of the first physical function of the example node, two allocation
  results for the requests \<open>a\<close> and \<open>b\<close>, the default config at address 0, a config
  scoped to the request \<open>a\<close> at address 1 and a config with no request list (one that
  applies to every request, as a device class supplies) at address 2.
\<close>

definition example_pf :: PFInfo where
  "example_pf =
     \<lparr>PciAddress = ''0000:01:00.0'', NetName = ''eth0'', VendorID = ''8086'',
      DeviceID = ''1572'', PFAddress = ''0000:01:00.0'', EswitchMode = ''legacy''\<rparr>"

definition example_allocatable :: AllocatableDevices where
  "example_allocatable =
     [''0000-01-02-0'' \<mapsto> vfDevice example_consts example_pf ''0000:01:02.0'',
      ''0000-01-02-1'' \<mapsto> vfDevice example_consts example_pf ''0000:01:02.1'']"

definition result_a :: DeviceRequestAllocationResult where
  "result_a = \<lparr>Request = ''a'', Pool = ''node1'', Device = ''0000-01-02-0''\<rparr>"

definition result_b :: DeviceRequestAllocationResult where
  "result_b = \<lparr>Request = ''b'', Pool = ''node1'', Device = ''0000-01-02-1''\<rparr>"

definition default_object :: Object where
  "default_object = VfConfigObj 0 \<lparr>NetAttachDefName = [], IfName = []\<rparr>"

definition scoped_config :: OpaqueDeviceConfig where
  "scoped_config =
     \<lparr>Requests = [''a''],
      Config = VfConfigObj 1 \<lparr>NetAttachDefName = ''net1'', IfName = ''net1''\<rparr>\<rparr>"

definition unscoped_config :: OpaqueDeviceConfig where
  "unscoped_config =
     \<lparr>Requests = [],
      Config = VfConfigObj 2 \<lparr>NetAttachDefName = ''net2'', IfName = ''net2''\<rparr>\<rparr>"

definition example_claim :: ResourceClaim where
  "example_claim =
     \<lparr>UID = ''claim-1'', Claim_Name = ''vf-claim'', Namespace = ''default'',
      Allocation = Some \<lparr>Devices_Results = [result_a, result_b], Devices_Config = []\<rparr>,
      ReservedFor = [\<lparr>Consumer_UID = ''pod-1'', Consumer_Name = ''pod''\<rparr>]\<rparr>"

section \<open>Prepared devices, collaborators and effects\<close>

text \<open>
  The container edits of a device (\<^verbatim>\<open>cdiapi.ContainerEdits\<close>: only the environment is
  set), the device as the orchestrator sees it (\<^verbatim>\<open>drapbv1.Device\<close>) and the prepared
  device: the record of the checkpoint-backed subsystem, and its extension by the fields
  the NRI-integrated subsystem adds. The field \<open>PbDevice\<close> is the embedded
  \<^verbatim>\<open>drapbv1.Device\<close>.
\<close>

record CDIContainerEdits =
  Env :: "string list"

record pbDevice =
  RequestNames :: "string list"
  PoolName :: string
  DeviceName :: string
  CDIDeviceIDs :: "string list"

record NamespacedObject =
  Object_Name :: string
  Object_Namespace :: string
  Object_UID :: string

record PreparedDevice =
  PbDevice :: pbDevice
  ContainerEdits :: "CDIContainerEdits option"

record PreparedDeviceNRI = PreparedDevice +
  ClaimNamespacedName :: NamespacedObject
  PodUID :: string
  PodName :: string
  PodNamespace :: string
  NetAttachDefConfig :: string
  Device_IfName :: string
  PodNetworkNamespace :: string
  PodSandboxID :: string

type_synonym PreparedClaims = "string \<rightharpoonup> PreparedDevice list"
type_synonym PerDeviceCDIContainerEdits = "string \<rightharpoonup> CDIContainerEdits"
type_synonym PerDeviceNetAttachDefs = "string \<rightharpoonup> string"
type_synonym PerDeviceIfName = "string \<rightharpoonup> string"

text \<open>
  Modelled from the spec: the pod manager, which is not among the sources. It is an
  in-memory index from a pod and a claim to the devices prepared for the claim; here an
  association list keyed by the pair of UIDs.
\<close>

type_synonym PodManager = "((string \<times> string) \<times> PreparedDeviceNRI list) list"

text \<open>
  Everything the two device-state managers, the driver and the NRI plugin hold or call
  that is not among these sources, as parameters: the catalog built at start-up and the
  attribute keys; the decoding of the opaque configs, the default config object, and the
  normalisation and validation of a config (package \<^verbatim>\<open>configapi\<close>); the API client's
  lookup of a network attachment definition by name and namespace; the conversion of
  its config (\<^verbatim>\<open>AddDeviceIDToNetConf\<close>); the CDI handler; the checkpoint manager's write;
  the failures of the pod manager; the CNI runtime. \<open>rangeOrder n\<close> is the order in which
  the \<open>n\<close>-th \<^verbatim>\<open>range\<close> statement of a function visits a Go map.
\<close>

record Collaborators =
  allocatable :: AllocatableDevices
  attributeKeys :: Consts
  GetOpaqueDeviceConfigs :: "DeviceAllocationConfiguration list \<Rightarrow> error + OpaqueDeviceConfig list"
  DefaultVfConfig :: Object
  Normalize :: "VfConfig \<Rightarrow> error + VfConfig"
  Validate :: "VfConfig \<Rightarrow> error option"
  k8sClient_Get :: "string \<Rightarrow> string \<Rightarrow> error + string"
  AddDeviceIDToNetConf :: "string \<Rightarrow> string \<Rightarrow> error + string"
  GetClaimDevices :: "string \<Rightarrow> string list \<Rightarrow> string list"
  CreateClaimSpecFile :: "PreparedDeviceNRI list \<Rightarrow> error option"
  DeviceState_CreateClaimSpecFile :: "string \<Rightarrow> PreparedDevice list \<Rightarrow> error option"
  DeleteClaimSpecFile :: "string \<Rightarrow> error option"
  CreateCheckpoint :: "PreparedClaims \<Rightarrow> error option"
  rangeOrder :: "nat \<Rightarrow> ConfigResultsMap \<Rightarrow> ConfigResultsMap"
  PodManager_SetError :: "string \<Rightarrow> string \<Rightarrow> error option"
  PodManager_DeleteError :: "string \<Rightarrow> error option"
  AttachNetwork :: "PreparedDeviceNRI \<Rightarrow> error option"
  DetachNetwork :: "PreparedDeviceNRI \<Rightarrow> error option"

text \<open>
  The calls that leave the process or enter a device-state manager, in the order they
  are made, and the two stores: the checkpoint as \<^verbatim>\<open>GetCheckpoint\<close> would read it now
  (an error when it cannot be read or fails its checksum) and the pod manager.
\<close>

datatype event =
    EvGetNetAttachDef string string
  | EvCreateClaimSpecFile string
  | EvDeleteClaimSpecFile string
  | EvGetCheckpoint
  | EvCreateCheckpoint
  | EvPrepareDevices string
  | EvUnprepare string
  | EvAttachNetwork string string
  | EvDetachNetwork string string

record World =
  trace :: "event list"
  checkpointFile :: "error + PreparedClaims"
  podManager :: PodManager

definition emit :: "event \<Rightarrow> World \<Rightarrow> World" where
  "emit e w = w\<lparr>trace := trace w @ [e]\<rparr>"

text \<open>
  \<^verbatim>\<open>fmt.Errorf("...: %v", err)\<close> around a call: an error is wrapped; a panic is not a
  returned value and passes every caller unchanged.
\<close>

fun wrap :: "(error \<Rightarrow> error) \<Rightarrow> error \<Rightarrow> error" where
  "wrap f (Panic msg) = Panic msg"
| "wrap f e = f e"

text \<open>
  \<^verbatim>\<open>*deviceInfo.Attributes[key].StringValue\<close>: a missing key gives the zero attribute,
  whose pointer is nil, and dereferencing nil panics.
\<close>

definition derefStringValue :: "Device \<Rightarrow> string \<Rightarrow> error + string" where
  "derefStringValue deviceInfo key =
     (case Attributes deviceInfo key of
        None \<Rightarrow> Inl (Panic ''nil pointer dereference'')
      | Some a \<Rightarrow>
          (case StringValue a of
             None \<Rightarrow> Inl (Panic ''nil pointer dereference'')
           | Some v \<Rightarrow> Inr v))"

section \<open>The NRI-integrated device-state manager (package devicestate)\<close>

text \<open>The loop of \<^verbatim>\<open>DeviceStateManager.applyConfig\<close> over the allocation results.\<close>

fun applyConfig_loop ::
  "Collaborators \<Rightarrow> string \<Rightarrow> VfConfig \<Rightarrow> DeviceRequestAllocationResult list \<Rightarrow>
   PerDeviceCDIContainerEdits \<times> PerDeviceNetAttachDefs \<times> PerDeviceIfName \<Rightarrow> World \<Rightarrow>
   (error + PerDeviceCDIContainerEdits \<times> PerDeviceNetAttachDefs \<times> PerDeviceIfName) \<times> World" where
  "applyConfig_loop s namespace vfConfig [] acc w = (Inr acc, w)"
| "applyConfig_loop s namespace vfConfig (r # rs) acc w =
     (case allocatable s (Device r) of
        None \<Rightarrow> (Inl (ErrDeviceNotFound (Device r)), w)
      | Some deviceInfo \<Rightarrow>
          (case derefStringValue deviceInfo (AttributePciAddress (attributeKeys s)) of
             Inl p \<Rightarrow> (Inl p, w)
           | Inr pciAddress \<Rightarrow>
               let envs =
                     [''VF_DEVICE_'' @ ReplaceAll (Device r) (CHR ''-'') (CHR ''_'') @ ''='' @ pciAddress,
                      ''NET_ATTACH_DEF_NAME='' @ NetAttachDefName vfConfig];
                   perDeviceEdits = (fst acc)(Device r \<mapsto> \<lparr>Env = envs\<rparr>);
                   w' = emit (EvGetNetAttachDef (NetAttachDefName vfConfig) namespace) w
               in case k8sClient_Get s (NetAttachDefName vfConfig) namespace of
                    Inl err \<Rightarrow> (Inl (ErrGettingNetAttachDef (NetAttachDefName vfConfig) err), w')
                  | Inr netAttachDefConfig \<Rightarrow>
                      (case AddDeviceIDToNetConf s netAttachDefConfig pciAddress of
                         Inl err \<Rightarrow> (Inl (ErrConvertingNetConf err), w')
                       | Inr netConf \<Rightarrow>
                           applyConfig_loop s namespace vfConfig rs
                             (perDeviceEdits,
                              (fst (snd acc))(Device r \<mapsto> netConf),
                              (snd (snd acc))(Device r \<mapsto> IfName vfConfig)) w')))"

definition applyConfig ::
  "Collaborators \<Rightarrow> string \<Rightarrow> VfConfig \<Rightarrow> DeviceRequestAllocationResult list \<Rightarrow> World \<Rightarrow>
   (error + PerDeviceCDIContainerEdits \<times> PerDeviceNetAttachDefs \<times> PerDeviceIfName) \<times> World" where
  "applyConfig s namespace vfConfig deviceRequestAllocationResults w =
     applyConfig_loop s namespace vfConfig deviceRequestAllocationResults
       (Map.empty, Map.empty, Map.empty) w"

text \<open>
  The first loop of \<^verbatim>\<open>prepareDevices\<close>, over the entries of the map in the order Go
  visits them: the type switch, normalise, validate, apply, and the merge of the three
  per-device maps.
\<close>

fun applyConfigs ::
  "Collaborators \<Rightarrow> ResourceClaim \<Rightarrow> ConfigResultsMap \<Rightarrow>
   PerDeviceCDIContainerEdits \<times> PerDeviceNetAttachDefs \<times> PerDeviceIfName \<Rightarrow> World \<Rightarrow>
   (error + PerDeviceCDIContainerEdits \<times> PerDeviceNetAttachDefs \<times> PerDeviceIfName) \<times> World" where
  "applyConfigs s claim [] acc w = (Inr acc, w)"
| "applyConfigs s claim ((c, results) # rest) acc w =
     (case c of
        OtherObj a \<Rightarrow> (Inl ErrNotRecognizedConfiguration, w)
      | VfConfigObj a castConfig \<Rightarrow>
          (case Normalize s castConfig of
             Inl err \<Rightarrow> (Inl (ErrNormalizing err), w)
           | Inr config \<Rightarrow>
               (case Validate s config of
                  Some err \<Rightarrow> (Inl (ErrValidating err), w)
                | None \<Rightarrow>
                    (case applyConfig s (Namespace claim) config results w of
                       (Inl err, w') \<Rightarrow> (Inl (wrap ErrApplying err), w')
                     | (Inr (containerEdits, containerNetAttachDefs, containerIfName), w') \<Rightarrow>
                         applyConfigs s claim rest
                           (fst acc ++ containerEdits,
                            fst (snd acc) ++ containerNetAttachDefs,
                            snd (snd acc) ++ containerIfName) w'))))"

text \<open>
  One prepared device. The composite literal reads \<^verbatim>\<open>claim.Status.ReservedFor[0]\<close>
  with no check of the length: on an empty list the index is out of range and the
  run-time panics.
\<close>

definition newPreparedDevice ::
  "Collaborators \<Rightarrow> ResourceClaim \<Rightarrow>
   PerDeviceCDIContainerEdits \<times> PerDeviceNetAttachDefs \<times> PerDeviceIfName \<Rightarrow>
   DeviceRequestAllocationResult \<Rightarrow> error + PreparedDeviceNRI" where
  "newPreparedDevice s claim perDevice result =
     (case ReservedFor claim of
        [] \<Rightarrow> Inl (Panic ''index out of range [0] with length 0'')
      | pod # _ \<Rightarrow>
          Inr \<lparr>PbDevice =
                 \<lparr>RequestNames = [Request result],
                  PoolName = Pool result,
                  DeviceName = Device result,
                  CDIDeviceIDs = GetClaimDevices s (UID claim) [Device result]\<rparr>,
               ContainerEdits = fst perDevice (Device result),
               ClaimNamespacedName =
                 \<lparr>Object_Name = Claim_Name claim,
                  Object_Namespace = Namespace claim,
                  Object_UID = UID claim\<rparr>,
               PodUID = Consumer_UID pod,
               PodName = Consumer_Name pod,
               PodNamespace = Namespace claim,
               NetAttachDefConfig =
                 (case fst (snd perDevice) (Device result) of None \<Rightarrow> [] | Some c \<Rightarrow> c),
               Device_IfName =
                 (case snd (snd perDevice) (Device result) of None \<Rightarrow> [] | Some n \<Rightarrow> n),
               PodNetworkNamespace = [],
               PodSandboxID = []\<rparr>)"

text \<open>The second loop, over the results of every entry of the map.\<close>

fun buildPreparedDevices ::
  "Collaborators \<Rightarrow> ResourceClaim \<Rightarrow>
   PerDeviceCDIContainerEdits \<times> PerDeviceNetAttachDefs \<times> PerDeviceIfName \<Rightarrow>
   DeviceRequestAllocationResult list \<Rightarrow> PreparedDeviceNRI list \<Rightarrow>
   error + PreparedDeviceNRI list" where
  "buildPreparedDevices s claim perDevice [] preparedDevices = Inr preparedDevices"
| "buildPreparedDevices s claim perDevice (result # results) preparedDevices =
     (case newPreparedDevice s claim perDevice result of
        Inl p \<Rightarrow> Inl p
      | Inr device \<Rightarrow>
          buildPreparedDevices s claim perDevice results (preparedDevices @ [device]))"

definition prepareDevices ::
  "Collaborators \<Rightarrow> ResourceClaim \<Rightarrow> World \<Rightarrow> (error + PreparedDeviceNRI list) \<times> World" where
  "prepareDevices s claim w =
     (case Allocation claim of
        None \<Rightarrow> (Inl ErrClaimNotYetAllocated, w)
      | Some a \<Rightarrow>
          (case GetOpaqueDeviceConfigs s (Devices_Config a) of
             Inl err \<Rightarrow> (Inl (ErrGettingOpaqueDeviceConfigs err), w)
           | Inr configs \<Rightarrow>
               (case getConfigResultsMap (allocatable s) (DefaultVfConfig s) configs claim of
                  Inl err \<Rightarrow> (Inl (wrap ErrGettingConfigResultsMap err), w)
                | Inr configResultsMap \<Rightarrow>
                    (case applyConfigs s claim (rangeOrder s 0 configResultsMap)
                            (Map.empty, Map.empty, Map.empty) w of
                       (Inl err, w') \<Rightarrow> (Inl err, w')
                     | (Inr perDevice, w') \<Rightarrow>
                         (buildPreparedDevices s claim perDevice
                            (concat (map snd (rangeOrder s 1 configResultsMap))) [], w')))))"

text \<open>
  \<^verbatim>\<open>DeviceStateManager.PrepareDevices\<close>: under the lock, prepare, refuse an empty list,
  write the CDI spec file of the claim.
\<close>

definition PrepareDevices ::
  "Collaborators \<Rightarrow> ResourceClaim \<Rightarrow> World \<Rightarrow> (error + PreparedDeviceNRI list) \<times> World" where
  "PrepareDevices s claim w =
     (case prepareDevices s claim (emit (EvPrepareDevices (UID claim)) w) of
        (Inl err, w') \<Rightarrow> (Inl (wrap ErrPrepareFailed err), w')
      | (Inr preparedDevices, w') \<Rightarrow>
          if length preparedDevices = 0 then (Inl ErrNoPreparedDevices, w')
          else
            (case CreateClaimSpecFile s preparedDevices of
               Some err \<Rightarrow> (Inl (ErrCreateCDISpecFile err), emit (EvCreateClaimSpecFile (UID claim)) w')
             | None \<Rightarrow> (Inr preparedDevices, emit (EvCreateClaimSpecFile (UID claim)) w')))"

text \<open>
  \<^verbatim>\<open>DeviceStateManager.Unprepare\<close>: the per-device teardown returns nil; the CDI spec
  file of the claim is deleted.
\<close>

definition unprepareDevices :: "PreparedDeviceNRI list \<Rightarrow> error option" where
  "unprepareDevices preparedDevices = None"

definition Unprepare ::
  "Collaborators \<Rightarrow> string \<Rightarrow> PreparedDeviceNRI list \<Rightarrow> World \<Rightarrow> error option \<times> World" where
  "Unprepare s claimUID preparedDevices w =
     (let w0 = emit (EvUnprepare claimUID) w in
      case unprepareDevices preparedDevices of
        Some err \<Rightarrow> (Some (ErrUnprepareFailed err), w0)
      | None \<Rightarrow>
          (case DeleteClaimSpecFile s claimUID of
             Some err \<Rightarrow> (Some (ErrDeleteCDISpecFile err), emit (EvDeleteClaimSpecFile claimUID) w0)
           | None \<Rightarrow> (None, emit (EvDeleteClaimSpecFile claimUID) w0)))"

section \<open>The checkpoint-backed device state (package state)\<close>

text \<open>
  \<^verbatim>\<open>DeviceState.applyConfig\<close>: one environment variable per device. The key of the
  attribute is the literal \<^verbatim>\<open>"pciAddress"\<close>; the config is not read.
\<close>

fun DeviceState_applyConfig_loop ::
  "Collaborators \<Rightarrow> DeviceRequestAllocationResult list \<Rightarrow> PerDeviceCDIContainerEdits \<Rightarrow>
   error + PerDeviceCDIContainerEdits" where
  "DeviceState_applyConfig_loop s [] perDeviceEdits = Inr perDeviceEdits"
| "DeviceState_applyConfig_loop s (result # results) perDeviceEdits =
     (case allocatable s (Device result) of
        None \<Rightarrow> Inl (ErrDeviceNotFound (Device result))
      | Some deviceInfo \<Rightarrow>
          (case derefStringValue deviceInfo ''pciAddress'' of
             Inl p \<Rightarrow> Inl p
           | Inr pciAddress \<Rightarrow>
               DeviceState_applyConfig_loop s results
                 (perDeviceEdits(Device result \<mapsto>
                    \<lparr>Env = [''VF_DEVICE_'' @ Device result @ ''='' @ pciAddress]\<rparr>))))"

definition DeviceState_applyConfig ::
  "Collaborators \<Rightarrow> VfConfig \<Rightarrow> DeviceRequestAllocationResult list \<Rightarrow>
   error + PerDeviceCDIContainerEdits" where
  "DeviceState_applyConfig s config results = DeviceState_applyConfig_loop s results Map.empty"

fun DeviceState_applyConfigs ::
  "Collaborators \<Rightarrow> ConfigResultsMap \<Rightarrow> PerDeviceCDIContainerEdits \<Rightarrow>
   error + PerDeviceCDIContainerEdits" where
  "DeviceState_applyConfigs s [] perDevice = Inr perDevice"
| "DeviceState_applyConfigs s ((c, results) # rest) perDevice =
     (case c of
        OtherObj a \<Rightarrow> Inl ErrNotRecognizedConfiguration
      | VfConfigObj a castConfig \<Rightarrow>
          (case Normalize s castConfig of
             Inl err \<Rightarrow> Inl (ErrNormalizing err)
           | Inr config \<Rightarrow>
               (case Validate s config of
                  Some err \<Rightarrow> Inl (ErrValidating err)
                | None \<Rightarrow>
                    (case DeviceState_applyConfig s config results of
                       Inl err \<Rightarrow> Inl (wrap ErrApplying err)
                     | Inr containerEdits \<Rightarrow>
                         DeviceState_applyConfigs s rest (perDevice ++ containerEdits)))))"

definition DeviceState_newPreparedDevice ::
  "Collaborators \<Rightarrow> ResourceClaim \<Rightarrow> PerDeviceCDIContainerEdits \<Rightarrow>
   DeviceRequestAllocationResult \<Rightarrow> PreparedDevice" where
  "DeviceState_newPreparedDevice s claim perDevice result =
     \<lparr>PbDevice =
        \<lparr>RequestNames = [Request result],
         PoolName = Pool result,
         DeviceName = Device result,
         CDIDeviceIDs = GetClaimDevices s (UID claim) [Device result]\<rparr>,
      ContainerEdits = perDevice (Device result)\<rparr>"

definition DeviceState_prepareDevices ::
  "Collaborators \<Rightarrow> ResourceClaim \<Rightarrow> error + PreparedDevice list" where
  "DeviceState_prepareDevices s claim =
     (case Allocation claim of
        None \<Rightarrow> Inl ErrClaimNotYetAllocated
      | Some a \<Rightarrow>
          (case GetOpaqueDeviceConfigs s (Devices_Config a) of
             Inl err \<Rightarrow> Inl (ErrGettingOpaqueDeviceConfigs err)
           | Inr configs \<Rightarrow>
               (case DeviceState_configResultsMap (allocatable s) (DefaultVfConfig s) configs a of
                  Inl err \<Rightarrow> Inl err
                | Inr configResultsMap \<Rightarrow>
                    (case DeviceState_applyConfigs s (rangeOrder s 0 configResultsMap) Map.empty of
                       Inl err \<Rightarrow> Inl err
                     | Inr perDevice \<Rightarrow>
                         Inr (map (DeviceState_newPreparedDevice s claim perDevice)
                                (concat (map snd (rangeOrder s 1 configResultsMap))))))))"

text \<open>
  \<^verbatim>\<open>preparedClaims[claimUID]\<close>: the nil slice for a missing key. \<^verbatim>\<open>GetDevices\<close> of
  package types.
\<close>

definition claimDevices :: "PreparedClaims \<Rightarrow> string \<Rightarrow> PreparedDevice list" where
  "claimDevices preparedClaims claimUID =
     (case preparedClaims claimUID of None \<Rightarrow> [] | Some pds \<Rightarrow> pds)"

definition GetDevices :: "PreparedDevice list \<Rightarrow> pbDevice list" where
  "GetDevices pds = map PbDevice pds"

text \<open>
  \<^verbatim>\<open>DeviceState.Prepare\<close>. The checkpoint is read; a claim whose entry is not nil is
  answered from it. Otherwise the devices are prepared, the CDI spec file is written,
  the entry is set and the checkpoint is written.
\<close>

definition DeviceState_Prepare ::
  "Collaborators \<Rightarrow> ResourceClaim \<Rightarrow> World \<Rightarrow> (error + pbDevice list) \<times> World" where
  "DeviceState_Prepare s claim w =
     (let claimUID = UID claim;
          w1 = emit EvGetCheckpoint w
      in case checkpointFile w of
           Inl err \<Rightarrow> (Inl (ErrSyncFromCheckpoint err), w1)
         | Inr preparedClaims \<Rightarrow>
             if claimDevices preparedClaims claimUID \<noteq> []
             then (Inr (GetDevices (claimDevices preparedClaims claimUID)), w1)
             else
               (case DeviceState_prepareDevices s claim of
                  Inl err \<Rightarrow> (Inl (wrap ErrPrepareFailed err), w1)
                | Inr preparedDevices \<Rightarrow>
                    let w2 = emit (EvCreateClaimSpecFile claimUID) w1 in
                    (case DeviceState_CreateClaimSpecFile s claimUID preparedDevices of
                       Some err \<Rightarrow> (Inl (ErrCreateCDISpecFile err), w2)
                     | None \<Rightarrow>
                         let preparedClaims' = preparedClaims(claimUID \<mapsto> preparedDevices);
                             w3 = emit EvCreateCheckpoint w2
                         in (case CreateCheckpoint s preparedClaims' of
                               Some err \<Rightarrow> (Inl (ErrSyncToCheckpoint err), w3)
                             | None \<Rightarrow>
                                 (Inr (GetDevices (claimDevices preparedClaims' claimUID)),
                                  w3\<lparr>checkpointFile := Inr preparedClaims'\<rparr>)))))"

text \<open>\<^verbatim>\<open>DeviceState.Unprepare\<close>; its per-device teardown returns nil.\<close>

definition DeviceState_unprepareDevices :: "string \<Rightarrow> PreparedDevice list \<Rightarrow> error option" where
  "DeviceState_unprepareDevices claimUID devices = None"

definition DeviceState_Unprepare ::
  "Collaborators \<Rightarrow> string \<Rightarrow> World \<Rightarrow> error option \<times> World" where
  "DeviceState_Unprepare s claimUID w =
     (let w1 = emit EvGetCheckpoint w
      in case checkpointFile w of
           Inl err \<Rightarrow> (Some (ErrSyncFromCheckpoint err), w1)
         | Inr preparedClaims \<Rightarrow>
             if claimDevices preparedClaims claimUID = [] then (None, w1)
             else
               (case DeviceState_unprepareDevices claimUID (claimDevices preparedClaims claimUID) of
                  Some err \<Rightarrow> (Some (ErrUnprepareFailed err), w1)
                | None \<Rightarrow>
                    let w2 = emit (EvDeleteClaimSpecFile claimUID) w1 in
                    (case DeleteClaimSpecFile s claimUID of
                       Some err \<Rightarrow> (Some (ErrDeleteCDISpecFile err), w2)
                     | None \<Rightarrow>
                         let preparedClaims' = preparedClaims(claimUID := None);
                             w3 = emit EvCreateCheckpoint w2
                         in (case CreateCheckpoint s preparedClaims' of
                               Some err \<Rightarrow> (Some (ErrSyncToCheckpoint err), w3)
                             | None \<Rightarrow> (None, w3\<lparr>checkpointFile := Inr preparedClaims'\<rparr>)))))"

section \<open>The pod manager\<close>

text \<open>
  Modelled from the spec: \<^verbatim>\<open>Get(podUID, claimUID)\<close> returns the prepared devices and a
  found flag; \<^verbatim>\<open>Set\<close> records them, or fails; \<^verbatim>\<open>GetByClaim\<close> and \<^verbatim>\<open>DeleteClaim\<close> find and
  remove an entry by the claim alone, scanning across pods; \<^verbatim>\<open>GetDevicesByPodUID\<close>
  returns all devices prepared for any claim of the pod. When \<^verbatim>\<open>Set\<close> and \<^verbatim>\<open>DeleteClaim\<close>
  fail is not specified: it is the collaborators' parameter.
\<close>

definition PodManager_Get :: "PodManager \<Rightarrow> string \<Rightarrow> string \<Rightarrow> PreparedDeviceNRI list \<times> bool" where
  "PodManager_Get pm podUID claimUID =
     (case map_of pm (podUID, claimUID) of
        None \<Rightarrow> ([], False)
      | Some devices \<Rightarrow> (devices, True))"

fun PodManager_put ::
  "string \<times> string \<Rightarrow> PreparedDeviceNRI list \<Rightarrow> PodManager \<Rightarrow> PodManager" where
  "PodManager_put k devices [] = [(k, devices)]"
| "PodManager_put k devices ((k', ds) # pm) =
     (if k' = k then (k, devices) # pm else (k', ds) # PodManager_put k devices pm)"

definition PodManager_Set ::
  "Collaborators \<Rightarrow> string \<Rightarrow> string \<Rightarrow> PreparedDeviceNRI list \<Rightarrow> PodManager \<Rightarrow>
   error + PodManager" where
  "PodManager_Set s podUID claimUID devices pm =
     (case PodManager_SetError s podUID claimUID of
        Some err \<Rightarrow> Inl err
      | None \<Rightarrow> Inr (PodManager_put (podUID, claimUID) devices pm))"

definition PodManager_GetByClaim ::
  "PodManager \<Rightarrow> NamespacedObject \<Rightarrow> PreparedDeviceNRI list \<times> bool" where
  "PodManager_GetByClaim pm claim =
     (case find (\<lambda>e. snd (fst e) = Object_UID claim) pm of
        None \<Rightarrow> ([], False)
      | Some e \<Rightarrow> (snd e, True))"

definition PodManager_DeleteClaim ::
  "Collaborators \<Rightarrow> NamespacedObject \<Rightarrow> PodManager \<Rightarrow> error + PodManager" where
  "PodManager_DeleteClaim s claim pm =
     (case PodManager_DeleteError s (Object_UID claim) of
        Some err \<Rightarrow> Inl err
      | None \<Rightarrow> Inr (filter (\<lambda>e. snd (fst e) \<noteq> Object_UID claim) pm))"

definition PodManager_GetDevicesByPodUID ::
  "PodManager \<Rightarrow> string \<Rightarrow> PreparedDeviceNRI list \<times> bool" where
  "PodManager_GetDevicesByPodUID pm podUID =
     (let entries = filter (\<lambda>e. fst (fst e) = podUID) pm
      in (concat (map snd entries), entries \<noteq> []))"

section \<open>The driver's prepare and unprepare hooks (dra\_hook.go)\<close>

text \<open>
  \<^verbatim>\<open>kubeletplugin.Device\<close> and \<^verbatim>\<open>kubeletplugin.PrepareResult\<close>. A panic inside a hook is
  recorded as the error of the result: the call did not return.
\<close>

record KubeletDevice =
  Device_Requests :: "string list"
  Device_PoolName :: string
  Device_DeviceName :: string
  Device_CDIDeviceIDs :: "string list"

record PrepareResult =
  Devices :: "KubeletDevice list"
  Err :: "error option"

definition toKubeletDevices :: "PreparedDeviceNRI list \<Rightarrow> KubeletDevice list" where
  "toKubeletDevices preparedDevices =
     map (\<lambda>preparedDevice.
            \<lparr>Device_Requests = RequestNames (PbDevice preparedDevice),
             Device_PoolName = PoolName (PbDevice preparedDevice),
             Device_DeviceName = DeviceName (PbDevice preparedDevice),
             Device_CDIDeviceIDs = CDIDeviceIDs (PbDevice preparedDevice)\<rparr>) preparedDevices"

definition prepareResourceClaim ::
  "Collaborators \<Rightarrow> ResourceClaim \<Rightarrow> World \<Rightarrow> PrepareResult \<times> World" where
  "prepareResourceClaim d claim w =
     (if length (ReservedFor claim) = 0
      then (\<lparr>Devices = [], Err = Some (ErrNoPodInfo (UID claim))\<rparr>, w)
      else if length (ReservedFor claim) > 1
      then (\<lparr>Devices = [], Err = Some (ErrMultiplePods (UID claim))\<rparr>, w)
      else
        let podUID = Consumer_UID (ReservedFor claim ! 0);
            (preparedDevices, isAlreadyPrepared) = PodManager_Get (podManager w) podUID (UID claim)
        in if isAlreadyPrepared
           then (\<lparr>Devices = toKubeletDevices preparedDevices, Err = None\<rparr>, w)
           else
             (case PrepareDevices d claim w of
                (Inl err, w') \<Rightarrow>
                  (\<lparr>Devices = [],
                    Err = Some (wrap (ErrPreparingDevicesForClaim (UID claim)) err)\<rparr>, w')
              | (Inr preparedDevices, w') \<Rightarrow>
                  (case PodManager_Set d podUID (UID claim) preparedDevices (podManager w') of
                     Inl err \<Rightarrow>
                       (\<lparr>Devices = [], Err = Some (ErrSettingPodManager podUID err)\<rparr>, w')
                   | Inr pm' \<Rightarrow>
                       (\<lparr>Devices = toKubeletDevices preparedDevices, Err = None\<rparr>,
                        w'\<lparr>podManager := pm'\<rparr>))))"

fun prepareClaims_loop ::
  "Collaborators \<Rightarrow> ResourceClaim list \<Rightarrow> (string \<rightharpoonup> PrepareResult) \<Rightarrow> World \<Rightarrow>
   (string \<rightharpoonup> PrepareResult) \<times> World" where
  "prepareClaims_loop d [] result w = (result, w)"
| "prepareClaims_loop d (claim # claims) result w =
     (case prepareResourceClaim d claim w of
        (r, w') \<Rightarrow> prepareClaims_loop d claims (result(UID claim \<mapsto> r)) w')"

text \<open>
  \<^verbatim>\<open>Driver.PrepareResourceClaims\<close>: the map of per-claim results and the top-level
  error, which is nil on every path.
\<close>

definition PrepareResourceClaims ::
  "Collaborators \<Rightarrow> ResourceClaim list \<Rightarrow> World \<Rightarrow>
   ((string \<rightharpoonup> PrepareResult) \<times> error option) \<times> World" where
  "PrepareResourceClaims d claims w =
     (if length claims = 0 then ((Map.empty, None), w)
      else case prepareClaims_loop d claims Map.empty w of
             (result, w') \<Rightarrow> ((result, None), w'))"

definition unprepareResourceClaim ::
  "Collaborators \<Rightarrow> NamespacedObject \<Rightarrow> World \<Rightarrow> error option \<times> World" where
  "unprepareResourceClaim d claim w =
     (let (preparedDevices, found) = PodManager_GetByClaim (podManager w) claim
      in if \<not> found then (None, w)
         else
           (case Unprepare d (Object_UID claim) preparedDevices w of
              (Some err, w') \<Rightarrow>
                (Some (ErrUnpreparingDevicesForClaim (Object_UID claim) err), w')
            | (None, w') \<Rightarrow>
                (case PodManager_DeleteClaim d claim (podManager w') of
                   Inl err \<Rightarrow>
                     (Some (ErrDeletingClaimFromPodManager (Object_UID claim) err), w')
                 | Inr pm' \<Rightarrow> (None, w'\<lparr>podManager := pm'\<rparr>))))"

section \<open>The NRI plugin (nri.go)\<close>

record LinuxNamespace =
  Ns_Type :: string
  Ns_Path :: string

record PodSandbox =
  Id :: string
  Sandbox_Name :: string
  Uid :: string
  Sandbox_Namespace :: string
  Linux_Namespaces :: "LinuxNamespace list"

text \<open>
  Modelled from the spec: \<^verbatim>\<open>getNetworkNamespace\<close>, which is not among the sources. It
  looks for the network-namespace entry among the sandbox's declared Linux namespaces
  and returns its path, or the empty string when there is none.
\<close>

definition getNetworkNamespace :: "PodSandbox \<Rightarrow> string" where
  "getNetworkNamespace pod =
     (case find (\<lambda>n. Ns_Type n = ''network'') (Linux_Namespaces pod) of
        None \<Rightarrow> []
      | Some n \<Rightarrow> Ns_Path n)"

text \<open>
  The loops of the two hooks. Each device gets the namespace path and the sandbox ID
  before the CNI runtime is called; the first failure ends the hook with an error.
\<close>

fun attachDevices ::
  "Collaborators \<Rightarrow> PodSandbox \<Rightarrow> string \<Rightarrow> PreparedDeviceNRI list \<Rightarrow> World \<Rightarrow>
   error option \<times> World" where
  "attachDevices p pod networkNamespace [] w = (None, w)"
| "attachDevices p pod networkNamespace (device # devices) w =
     (let device' = device\<lparr>PodNetworkNamespace := networkNamespace, PodSandboxID := Id pod\<rparr>;
          w' = emit (EvAttachNetwork (DeviceName (PbDevice device')) networkNamespace) w
      in case AttachNetwork p device' of
           Some err \<Rightarrow> (Some (ErrAttachNetwork err), w')
         | None \<Rightarrow> attachDevices p pod networkNamespace devices w')"

fun detachDevices ::
  "Collaborators \<Rightarrow> PodSandbox \<Rightarrow> string \<Rightarrow> PreparedDeviceNRI list \<Rightarrow> World \<Rightarrow>
   error option \<times> World" where
  "detachDevices p pod networkNamespace [] w = (None, w)"
| "detachDevices p pod networkNamespace (device # devices) w =
     (let device' = device\<lparr>PodNetworkNamespace := networkNamespace, PodSandboxID := Id pod\<rparr>;
          w' = emit (EvDetachNetwork (DeviceName (PbDevice device')) networkNamespace) w
      in case DetachNetwork p device' of
           Some err \<Rightarrow>
             (Some (ErrDetachNetwork (Sandbox_Name pod) (Uid pod) (Sandbox_Namespace pod) err), w')
         | None \<Rightarrow> detachDevices p pod networkNamespace devices w')"

definition RunPodSandbox :: "Collaborators \<Rightarrow> PodSandbox \<Rightarrow> World \<Rightarrow> error option \<times> World" where
  "RunPodSandbox p pod w =
     (let (devices, found) = PodManager_GetDevicesByPodUID (podManager w) (Uid pod)
      in if \<not> found then (None, w)
         else
           let networkNamespace = getNetworkNamespace pod
           in if networkNamespace = [] then (None, w)
              else attachDevices p pod networkNamespace devices w)"

definition StopPodSandbox :: "Collaborators \<Rightarrow> PodSandbox \<Rightarrow> World \<Rightarrow> error option \<times> World" where
  "StopPodSandbox p pod w =
     (let (devices, found) = PodManager_GetDevicesByPodUID (podManager w) (Uid pod)
      in if \<not> found then (None, w)
         else
           let networkNamespace = getNetworkNamespace pod
           in if networkNamespace = []
              then (Some (ErrGettingNetworkNamespace (Sandbox_Name pod) (Sandbox_Namespace pod)), w)
              else detachDevices p pod networkNamespace devices w)"

section \<open>Traces\<close>

text \<open>
  A world \<open>w'\<close> follows a world \<open>w\<close> by events that all satisfy \<open>P\<close>: its trace is the
  trace of \<open>w\<close> with such events appended.
\<close>

definition extendsTrace :: "(event \<Rightarrow> bool) \<Rightarrow> World \<Rightarrow> World \<Rightarrow> bool" where
  "extendsTrace P w w' \<longleftrightarrow> (\<exists>es. trace w' = trace w @ es \<and> (\<forall>e \<in> set es. P e))"

text \<open>An event other than the entry into \<^verbatim>\<open>PrepareDevices\<close>.\<close>

definition notPrepare :: "event \<Rightarrow> bool" where
  "notPrepare e \<longleftrightarrow> (\<forall>u. e \<noteq> EvPrepareDevices u)"


section \<open>Checkpoint\<close>

text \<open>
  Package \<^verbatim>\<open>checkpoint\<close>. \<^verbatim>\<open>Checkpoint\<close> holds the checksum (an unsigned 64-bit number) and
  a pointer to the versioned payload, \<open>None\<close> being nil. \<^verbatim>\<open>NewCheckpoint\<close> starts with
  checksum zero and an empty map of prepared claims.
\<close>

record CheckpointV1 =
  PreparedClaims :: PreparedClaims









subsection \<open>The JSON form of a checkpoint\<close>
































section \<open>An example node and its collaborators\<close>

text \<open>
  Collaborators under which the example claim prepares: the decoded configs are the
  unscoped config and, after it, the config scoped to the request \<open>a\<close>; validation
  requires the name of a network attachment definition; the definitions \<open>net1\<close> and
  \<open>net2\<close> exist in the namespace \<open>default\<close>; every write succeeds; Go visits a map
  in the order of insertion in the first loop and in the reverse order in the second.
\<close>

definition example_collaborators :: Collaborators where
  "example_collaborators =
     \<lparr>allocatable = example_allocatable,
      attributeKeys = example_consts,
      GetOpaqueDeviceConfigs = (\<lambda>raw. Inr [unscoped_config, scoped_config]),
      DefaultVfConfig = default_object,
      Normalize = (\<lambda>c. Inr c),
      Validate =
        (\<lambda>c. if NetAttachDefName c = [] then Some (External ''NetAttachDefName is required'')
              else None),
      k8sClient_Get =
        (\<lambda>name namespace.
           if (name = ''net1'' \<or> name = ''net2'') \<and> namespace = ''default''
           then Inr (''sriov-config-'' @ name) else Inl (External ''not found'')),
      AddDeviceIDToNetConf = (\<lambda>config pciAddress. Inr (config @ '' deviceID='' @ pciAddress)),
      GetClaimDevices = (\<lambda>claimUID names. map (\<lambda>n. ''k8s.sriov/vf='' @ claimUID @ ''-'' @ n) names),
      CreateClaimSpecFile = (\<lambda>devices. None),
      DeviceState_CreateClaimSpecFile = (\<lambda>claimUID devices. None),
      DeleteClaimSpecFile = (\<lambda>claimUID. None),
      CreateCheckpoint = (\<lambda>preparedClaims. None),
      rangeOrder = (\<lambda>n m. if n = 0 then m else rev m),
      PodManager_SetError = (\<lambda>podUID claimUID. None),
      PodManager_DeleteError = (\<lambda>claimUID. None),
      AttachNetwork = (\<lambda>device. None),
      DetachNetwork = (\<lambda>device. None)\<rparr>"

definition example_world :: World where
  "example_world = \<lparr>trace = [], checkpointFile = Inr Map.empty, podManager = []\<rparr>"

text \<open>The same collaborators when no network attachment definition exists.\<close>

definition example_collaborators_no_nad :: Collaborators where
  "example_collaborators_no_nad =
     example_collaborators\<lparr>k8sClient_Get := (\<lambda>name namespace. Inl (External ''not found''))\<rparr>"

text \<open>
  The two devices the example claim prepares, the world after the driver's hook has
  prepared it, two sandboxes (one of the pod of the claim, with no network namespace;
  one of a pod with no claim), and a batch of three claims: the example claim, a claim
  no pod has reserved and a claim two pods have reserved.
\<close>

definition example_device_a :: PreparedDeviceNRI where
  "example_device_a =
     \<lparr>PbDevice =
        \<lparr>RequestNames = [''a''], PoolName = ''node1'', DeviceName = ''0000-01-02-0'',
         CDIDeviceIDs = [''k8s.sriov/vf=claim-1-0000-01-02-0'']\<rparr>,
      ContainerEdits =
        Some \<lparr>Env = [''VF_DEVICE_0000_01_02_0=0000:01:02.0'', ''NET_ATTACH_DEF_NAME=net1'']\<rparr>,
      ClaimNamespacedName =
        \<lparr>Object_Name = ''vf-claim'', Object_Namespace = ''default'', Object_UID = ''claim-1''\<rparr>,
      PodUID = ''pod-1'', PodName = ''pod'', PodNamespace = ''default'',
      NetAttachDefConfig = ''sriov-config-net1 deviceID=0000:01:02.0'',
      Device_IfName = ''net1'', PodNetworkNamespace = [], PodSandboxID = []\<rparr>"

definition example_device_b :: PreparedDeviceNRI where
  "example_device_b =
     \<lparr>PbDevice =
        \<lparr>RequestNames = [''b''], PoolName = ''node1'', DeviceName = ''0000-01-02-1'',
         CDIDeviceIDs = [''k8s.sriov/vf=claim-1-0000-01-02-1'']\<rparr>,
      ContainerEdits =
        Some \<lparr>Env = [''VF_DEVICE_0000_01_02_1=0000:01:02.1'', ''NET_ATTACH_DEF_NAME=net2'']\<rparr>,
      ClaimNamespacedName =
        \<lparr>Object_Name = ''vf-claim'', Object_Namespace = ''default'', Object_UID = ''claim-1''\<rparr>,
      PodUID = ''pod-1'', PodName = ''pod'', PodNamespace = ''default'',
      NetAttachDefConfig = ''sriov-config-net2 deviceID=0000:01:02.1'',
      Device_IfName = ''net2'', PodNetworkNamespace = [], PodSandboxID = []\<rparr>"

definition example_prepared_world :: World where
  "example_prepared_world =
     \<lparr>trace =
        [EvPrepareDevices ''claim-1'', EvGetNetAttachDef ''net1'' ''default'',
         EvGetNetAttachDef ''net2'' ''default'', EvCreateClaimSpecFile ''claim-1''],
      checkpointFile = Inr Map.empty,
      podManager = [((''pod-1'', ''claim-1''), [example_device_b, example_device_a])]\<rparr>"

definition example_sandbox_host_network :: PodSandbox where
  "example_sandbox_host_network =
     \<lparr>Id = ''sandbox-1'', Sandbox_Name = ''pod'', Uid = ''pod-1'',
      Sandbox_Namespace = ''default'',
      Linux_Namespaces = [\<lparr>Ns_Type = ''ipc'', Ns_Path = ''/proc/42/ns/ipc''\<rparr>]\<rparr>"

definition example_sandbox_no_claim :: PodSandbox where
  "example_sandbox_no_claim =
     \<lparr>Id = ''sandbox-2'', Sandbox_Name = ''other'', Uid = ''pod-2'',
      Sandbox_Namespace = ''default'', Linux_Namespaces = []\<rparr>"

definition example_claim_no_pod :: ResourceClaim where
  "example_claim_no_pod = example_claim\<lparr>UID := ''claim-2'', ReservedFor := []\<rparr>"

definition example_claim_two_pods :: ResourceClaim where
  "example_claim_two_pods =
     example_claim
       \<lparr>UID := ''claim-3'',
        ReservedFor := [\<lparr>Consumer_UID = ''pod-1'', Consumer_Name = ''pod''\<rparr>,
                        \<lparr>Consumer_UID = ''pod-2'', Consumer_Name = ''other''\<rparr>]\<rparr>"

definition example_batch :: "ResourceClaim list" where
  "example_batch = [example_claim_no_pod, example_claim, example_claim_two_pods]"

section \<open>Properties of device discovery\<close>

lemma collectPFs_filter:
  "collectPFs h devices pfList = pfList @ map (pfInfoOf h) (filter (keptAsPF h) devices)"
  by (induction devices arbitrary: pfList)
     (auto simp: keptAsPF_def pfInfoOf_def Let_def split: option.splits)

lemma addVFs_map_of:
  "addVFs k pfInfo vfList m =
     m ++ map_of (rev (map (\<lambda>vf. (deviceName vf, vfDevice k pfInfo vf)) vfList))"
  by (induction vfList arbitrary: m) (simp_all add: map_add_upd_left)

lemma processPFs_map_of:
  "processPFs h k pfList m = Inr m' \<Longrightarrow> m' = m ++ map_of (rev (vfEntries h k pfList))"
  by (induction pfList arbitrary: m)
     (auto simp: vfEntries_def addVFs_map_of split: sum.splits)

lemma processPFs_error_iff:
  "(\<exists>e. processPFs h k pfList m = Inl e) \<longleftrightarrow>
     (\<exists>pfInfo \<in> set pfList. \<exists>e. GetVFList h (PFAddress pfInfo) = Inl e)"
  by (induction pfList arbitrary: m) (auto split: sum.splits)


lemma vfEntries_discovered:
  "vfEntries h k (map (pfInfoOf h) pfs) =
     map (\<lambda>(device, vf). (deviceName vf, vfDevice k (pfInfoOf h device) vf))
       (concat (map (\<lambda>device. map (Pair device) (vfsOf h device)) pfs))"
  by (induction pfs) (simp_all add: vfEntries_def vfsOf_def pfInfoOf_def comp_def)

lemma DiscoverSriovDevices_map_of:
  assumes "PCI h = Inr devices" and "DiscoverSriovDevices h k = Inr cat"
  shows "cat = map_of (rev (map (\<lambda>(device, vf). (deviceName vf, vfDevice k (pfInfoOf h device) vf))
                 (discoveredVFs h devices)))"
proof -
  from assms have "processPFs h k (map (pfInfoOf h) (filter (keptAsPF h) devices)) Map.empty = Inr cat"
    by (simp add: DiscoverSriovDevices_def collectPFs_filter split: if_splits)
  from processPFs_map_of [OF this] show ?thesis
    by (simp add: vfEntries_discovered discoveredVFs_def)
qed

lemma DiscoverSriovDevices_Inl_iff:
  "(\<exists>e. DiscoverSriovDevices h k = Inl e) \<longleftrightarrow>
     ((\<exists>e. PCI h = Inl e) \<or> PCI h = Inr [] \<or>
      (\<exists>devices. PCI h = Inr devices \<and>
         (\<exists>device \<in> set devices.
            ParseInt (Class_ID device) = Some NetClass \<and>
            \<not> IsSriovVF h (Address device) \<and>
            TryGetInterfaceName h (Address device) \<noteq> [] \<and>
            (\<exists>e. GetVFList h (Address device) = Inl e))))"
proof (cases "PCI h")
  case (Inl e)
  then show ?thesis by (simp add: DiscoverSriovDevices_def)
next
  case (Inr devices)
  show ?thesis
  proof (cases "devices = []")
    case True
    with Inr show ?thesis by (simp add: DiscoverSriovDevices_def)
  next
    case False
    have "(\<exists>e. DiscoverSriovDevices h k = Inl e) \<longleftrightarrow>
          (\<exists>e. processPFs h k (map (pfInfoOf h) (filter (keptAsPF h) devices)) Map.empty = Inl e)"
      using Inr False by (simp add: DiscoverSriovDevices_def collectPFs_filter)
    also have "\<dots> \<longleftrightarrow> (\<exists>device \<in> set devices. keptAsPF h device \<and>
                  (\<exists>e. GetVFList h (Address device) = Inl e))"
      by (auto simp: processPFs_error_iff pfInfoOf_def)
    finally show ?thesis using Inr False by (auto simp: keptAsPF_def)
  qed
qed

text \<open>
  Claim C8. \<^verbatim>\<open>DiscoverSriovDevices\<close> returns an error, and no catalog, exactly when the
  PCI enumeration fails, when it finds no device, or when \<^verbatim>\<open>GetVFList\<close> fails for a
  device the first loop kept as a physical function. The first loop keeps exactly the
  devices whose class parses in base 16 to the network class 2, that are not virtual
  functions and that have an interface name; every other device is skipped and the loop
  goes on with the remaining ones.
\<close>

theorem DiscoverSriovDevices_error_iff:
  "((\<exists>e. DiscoverSriovDevices h k = Inl e) \<longleftrightarrow>
      ((\<exists>e. PCI h = Inl e) \<or> PCI h = Inr [] \<or>
       (\<exists>devices. PCI h = Inr devices \<and>
          (\<exists>device \<in> set devices.
             ParseInt (Class_ID device) = Some NetClass \<and>
             \<not> IsSriovVF h (Address device) \<and>
             TryGetInterfaceName h (Address device) \<noteq> [] \<and>
             (\<exists>e. GetVFList h (Address device) = Inl e))))) \<and>
   collectPFs h ds [] = map (pfInfoOf h) (filter (keptAsPF h) ds)"
proof
  show "(\<exists>e. DiscoverSriovDevices h k = Inl e) \<longleftrightarrow>
      ((\<exists>e. PCI h = Inl e) \<or> PCI h = Inr [] \<or>
       (\<exists>devices. PCI h = Inr devices \<and>
          (\<exists>device \<in> set devices.
             ParseInt (Class_ID device) = Some NetClass \<and>
             \<not> IsSriovVF h (Address device) \<and>
             TryGetInterfaceName h (Address device) \<noteq> [] \<and>
             (\<exists>e. GetVFList h (Address device) = Inl e))))"
    by (rule DiscoverSriovDevices_Inl_iff)
  show "collectPFs h ds [] = map (pfInfoOf h) (filter (keptAsPF h) ds)"
    by (simp add: collectPFs_filter)
qed

lemma vfDevice_attrs:
  assumes "distinct [AttributeVendorID k, AttributeDeviceID k, AttributePciAddress k,
                     AttributePFName k, AttributeEswitchMode k]"
  shows "Name (vfDevice k pf vf) = deviceName vf"
    and "Attributes (vfDevice k pf vf) (AttributeVendorID k) = Some \<lparr>StringValue = Some (VendorID pf)\<rparr>"
    and "Attributes (vfDevice k pf vf) (AttributeDeviceID k) = Some \<lparr>StringValue = Some (DeviceID pf)\<rparr>"
    and "Attributes (vfDevice k pf vf) (AttributePciAddress k) = Some \<lparr>StringValue = Some vf\<rparr>"
    and "Attributes (vfDevice k pf vf) (AttributePFName k) = Some \<lparr>StringValue = Some (NetName pf)\<rparr>"
    and "Attributes (vfDevice k pf vf) (AttributeEswitchMode k) = Some \<lparr>StringValue = Some (EswitchMode pf)\<rparr>"
    and "dom (Attributes (vfDevice k pf vf)) =
           {AttributeVendorID k, AttributeDeviceID k, AttributePciAddress k,
            AttributePFName k, AttributeEswitchMode k}"
  using assms by (auto simp: vfDevice_def)

text \<open>
  Claim C2. On a node where discovery succeeds and the virtual functions listed under
  the kept physical functions have pairwise distinct device names (PCI addresses are
  unique on a node), the catalog has exactly one entry per listed virtual function. Its
  key is the address of the virtual function with every colon and dot replaced by a
  dash; its vendor ID, device ID, interface name and eswitch mode are those of the
  physical function, and its PCI address is the virtual function's own.
\<close>

theorem DiscoverSriovDevices_one_entry_per_VF:
  assumes pci: "PCI h = Inr devices"
      and ok: "DiscoverSriovDevices h k = Inr cat"
      and keys: "distinct [AttributeVendorID k, AttributeDeviceID k, AttributePciAddress k,
                           AttributePFName k, AttributeEswitchMode k]"
      and names: "distinct (map (\<lambda>(device, vf). deviceName vf) (discoveredVFs h devices))"
  shows "dom cat = (\<lambda>(device, vf). deviceName vf) ` set (discoveredVFs h devices) \<and>
         card (dom cat) = length (discoveredVFs h devices) \<and>
         (\<forall>(device, vf) \<in> set (discoveredVFs h devices).
            \<exists>d. cat (deviceName vf) = Some d \<and>
                Name d = deviceName vf \<and>
                Attributes d (AttributeVendorID k) = Some \<lparr>StringValue = Some (Vendor_ID device)\<rparr> \<and>
                Attributes d (AttributeDeviceID k) = Some \<lparr>StringValue = Some (Product_ID device)\<rparr> \<and>
                Attributes d (AttributePciAddress k) = Some \<lparr>StringValue = Some vf\<rparr> \<and>
                Attributes d (AttributePFName k) =
                  Some \<lparr>StringValue = Some (TryGetInterfaceName h (Address device))\<rparr> \<and>
                Attributes d (AttributeEswitchMode k) =
                  Some \<lparr>StringValue = Some (GetNicSriovMode h (Address device))\<rparr> \<and>
                dom (Attributes d) =
                  {AttributeVendorID k, AttributeDeviceID k, AttributePciAddress k,
                   AttributePFName k, AttributeEswitchMode k})"
proof -
  let ?f = "\<lambda>(device, vf). (deviceName vf, vfDevice k (pfInfoOf h device) vf)"
  let ?xs = "rev (map ?f (discoveredVFs h devices))"
  have cat: "cat = map_of ?xs"
    by (rule DiscoverSriovDevices_map_of [OF pci ok])
  have fst: "fst \<circ> ?f = (\<lambda>(device, vf). deviceName vf)"
    by (auto simp: fun_eq_iff)
  have dist: "distinct (map fst ?xs)"
  proof -
    have "map fst ?xs = rev (map (\<lambda>(device, vf). deviceName vf) (discoveredVFs h devices))"
      by (simp add: rev_map fst)
    then show ?thesis using names by (simp only: distinct_rev)
  qed
  have d: "dom cat = (\<lambda>(device, vf). deviceName vf) ` set (discoveredVFs h devices)"
    unfolding cat dom_map_of_conv_image_fst by (force simp: case_prod_unfold)
  have c: "card (dom cat) = length (discoveredVFs h devices)"
  proof -
    have "dom cat = set (map fst ?xs)"
      unfolding cat dom_map_of_conv_image_fst by simp
    then have "card (dom cat) = length (map fst ?xs)"
      using distinct_card [OF dist] by simp
    then show ?thesis by simp
  qed
  have e: "cat (deviceName vf) = Some (vfDevice k (pfInfoOf h device) vf)"
    if "(device, vf) \<in> set (discoveredVFs h devices)" for device vf
  proof -
    from that have "(deviceName vf, vfDevice k (pfInfoOf h device) vf) \<in> set ?xs"
      by force
    from map_of_is_SomeI [OF dist this] show ?thesis by (simp add: cat)
  qed
  have a: "\<exists>d. cat (deviceName vf) = Some d \<and>
                Name d = deviceName vf \<and>
                Attributes d (AttributeVendorID k) = Some \<lparr>StringValue = Some (Vendor_ID device)\<rparr> \<and>
                Attributes d (AttributeDeviceID k) = Some \<lparr>StringValue = Some (Product_ID device)\<rparr> \<and>
                Attributes d (AttributePciAddress k) = Some \<lparr>StringValue = Some vf\<rparr> \<and>
                Attributes d (AttributePFName k) =
                  Some \<lparr>StringValue = Some (TryGetInterfaceName h (Address device))\<rparr> \<and>
                Attributes d (AttributeEswitchMode k) =
                  Some \<lparr>StringValue = Some (GetNicSriovMode h (Address device))\<rparr> \<and>
                dom (Attributes d) =
                  {AttributeVendorID k, AttributeDeviceID k, AttributePciAddress k,
                   AttributePFName k, AttributeEswitchMode k}"
    if "(device, vf) \<in> set (discoveredVFs h devices)" for device vf
    using e [OF that] vfDevice_attrs [OF keys, of "pfInfoOf h device" vf]
    by (simp add: pfInfoOf_def)
  from d c a show ?thesis by blast
qed

lemma example_kept:
  "filter (keptAsPF example_helpers) example_devices =
     [\<lparr>Address = ''0000:01:00.0'', Class_ID = ''02'', Vendor_ID = ''8086'', Product_ID = ''1572''\<rparr>,
      \<lparr>Address = ''0000:02:00.0'', Class_ID = ''02'', Vendor_ID = ''15b3'', Product_ID = ''1017''\<rparr>]"
  by (simp add: example_devices_def example_helpers_def keptAsPF_def ParseInt_def ParseUint_def
      hexDigit_def NetClass_def)

lemma example_discoveredVFs:
  "discoveredVFs example_helpers example_devices =
     [(\<lparr>Address = ''0000:01:00.0'', Class_ID = ''02'', Vendor_ID = ''8086'', Product_ID = ''1572''\<rparr>, ''0000:01:02.0''),
      (\<lparr>Address = ''0000:01:00.0'', Class_ID = ''02'', Vendor_ID = ''8086'', Product_ID = ''1572''\<rparr>, ''0000:01:02.1''),
      (\<lparr>Address = ''0000:02:00.0'', Class_ID = ''02'', Vendor_ID = ''15b3'', Product_ID = ''1017''\<rparr>, ''0000:02:00.1'')]"
  by (simp add: discoveredVFs_def example_kept vfsOf_def) (simp add: example_helpers_def)

lemma example_discover_ok:
  "\<exists>cat. DiscoverSriovDevices example_helpers example_consts = Inr cat"
proof -
  have pci: "PCI example_helpers = Inr example_devices"
    by (simp add: example_helpers_def)
  have ne: "example_devices \<noteq> []"
    by (simp add: example_devices_def)
  have eq: "DiscoverSriovDevices example_helpers example_consts =
      processPFs example_helpers example_consts
        (map (pfInfoOf example_helpers) (filter (keptAsPF example_helpers) example_devices)) Map.empty"
    using ne by (simp add: DiscoverSriovDevices_def pci collectPFs_filter)
  have "\<not> (\<exists>e. processPFs example_helpers example_consts
        (map (pfInfoOf example_helpers) (filter (keptAsPF example_helpers) example_devices)) Map.empty = Inl e)"
    unfolding processPFs_error_iff example_kept
    by (simp add: pfInfoOf_def example_helpers_def)
  with eq show ?thesis
    by (metis sum.exhaust)
qed

theorem DiscoverSriovDevices_one_entry_per_VF_witness:
  "\<exists>cat. DiscoverSriovDevices example_helpers example_consts = Inr cat \<and>
     dom cat = {''0000-01-02-0'', ''0000-01-02-1'', ''0000-02-00-1''} \<and>
     card (dom cat) = 3 \<and>
     (\<exists>d. cat ''0000-01-02-1'' = Some d \<and> Name d = ''0000-01-02-1'' \<and>
        Attributes d ''vendor'' = Some \<lparr>StringValue = Some ''8086''\<rparr> \<and>
        Attributes d ''deviceID'' = Some \<lparr>StringValue = Some ''1572''\<rparr> \<and>
        Attributes d ''pciAddress'' = Some \<lparr>StringValue = Some ''0000:01:02.1''\<rparr> \<and>
        Attributes d ''PFName'' = Some \<lparr>StringValue = Some ''eth0''\<rparr> \<and>
        Attributes d ''EswitchMode'' = Some \<lparr>StringValue = Some ''legacy''\<rparr>)"
proof -
  obtain cat where ok: "DiscoverSriovDevices example_helpers example_consts = Inr cat"
    using example_discover_ok by blast
  have pci: "PCI example_helpers = Inr example_devices"
    by (simp add: example_helpers_def)
  have keys: "distinct [AttributeVendorID example_consts, AttributeDeviceID example_consts,
      AttributePciAddress example_consts, AttributePFName example_consts,
      AttributeEswitchMode example_consts]"
    by (simp add: example_consts_def)
  have names: "distinct (map (\<lambda>(device, vf). deviceName vf)
      (discoveredVFs example_helpers example_devices))"
    by (simp add: example_discoveredVFs deviceName_def ReplaceAll_def)
  note t = DiscoverSriovDevices_one_entry_per_VF [OF pci ok keys names]
  have d: "dom cat = {''0000-01-02-0'', ''0000-01-02-1'', ''0000-02-00-1''}"
    using t [THEN conjunct1] by (simp add: example_discoveredVFs deviceName_def ReplaceAll_def)
  have c: "card (dom cat) = 3"
    using t [THEN conjunct2, THEN conjunct1] by (simp add: example_discoveredVFs)
  have m: "(\<lparr>Address = ''0000:01:00.0'', Class_ID = ''02'', Vendor_ID = ''8086'', Product_ID = ''1572''\<rparr>,
         ''0000:01:02.1'') \<in> set (discoveredVFs example_helpers example_devices)"
    by (simp add: example_discoveredVFs)
  have e: "\<exists>d. cat ''0000-01-02-1'' = Some d \<and> Name d = ''0000-01-02-1'' \<and>
        Attributes d ''vendor'' = Some \<lparr>StringValue = Some ''8086''\<rparr> \<and>
        Attributes d ''deviceID'' = Some \<lparr>StringValue = Some ''1572''\<rparr> \<and>
        Attributes d ''pciAddress'' = Some \<lparr>StringValue = Some ''0000:01:02.1''\<rparr> \<and>
        Attributes d ''PFName'' = Some \<lparr>StringValue = Some ''eth0''\<rparr> \<and>
        Attributes d ''EswitchMode'' = Some \<lparr>StringValue = Some ''legacy''\<rparr>"
    using bspec [OF t [THEN conjunct2, THEN conjunct2] m]
    by (simp add: example_consts_def example_helpers_def deviceName_def ReplaceAll_def) blast
  from ok d c e show ?thesis by blast
qed

theorem DiscoverSriovDevices_error_iff_witness:
  "(\<exists>e. DiscoverSriovDevices example_helpers_unreadable example_consts = Inl e) \<and>
   \<not> (\<exists>e. DiscoverSriovDevices example_helpers example_consts = Inl e) \<and>
   map PFAddress (collectPFs example_helpers example_devices []) = [''0000:01:00.0'', ''0000:02:00.0'']"
proof -
  note t = DiscoverSriovDevices_error_iff [of example_helpers_unreadable example_consts example_devices]
  note u = DiscoverSriovDevices_error_iff [of example_helpers example_consts example_devices]
  have "\<exists>device \<in> set example_devices.
            ParseInt (Class_ID device) = Some NetClass \<and>
            \<not> IsSriovVF example_helpers_unreadable (Address device) \<and>
            TryGetInterfaceName example_helpers_unreadable (Address device) \<noteq> [] \<and>
            (\<exists>e. GetVFList example_helpers_unreadable (Address device) = Inl e)"
    by (simp add: example_devices_def example_helpers_unreadable_def example_helpers_def
        ParseInt_def ParseUint_def hexDigit_def NetClass_def)
  moreover have "PCI example_helpers_unreadable = Inr example_devices"
    by (simp add: example_helpers_unreadable_def example_helpers_def)
  ultimately have a: "\<exists>e. DiscoverSriovDevices example_helpers_unreadable example_consts = Inl e"
    using t [THEN conjunct1] by blast
  have b: "\<not> (\<exists>e. DiscoverSriovDevices example_helpers example_consts = Inl e)"
    using example_discover_ok by auto
  have c: "map PFAddress (collectPFs example_helpers example_devices []) =
      [''0000:01:00.0'', ''0000:02:00.0'']"
    unfolding u [THEN conjunct2] example_kept by (simp add: pfInfoOf_def)
  from a b c show ?thesis by blast
qed

section \<open>Properties of claim preparation\<close>

lemma map_of_appendResult:
  "map_of (appendResult k r m) = (map_of m)(k \<mapsto> resultsOf m k @ [r])"
  by (induction m) (auto simp: resultsOf_def fun_eq_iff)

lemma resultsOf_appendResult:
  "resultsOf (appendResult k r m) k' = (if k' = k then resultsOf m k @ [r] else resultsOf m k')"
  by (simp add: resultsOf_def map_of_appendResult)

lemma assignResult_find:
  "assignResult cs r m =
     (case find (configMatches (Request r)) cs of
        None \<Rightarrow> m
      | Some c \<Rightarrow> appendResult (Config c) r m)"
  by (induction cs) (auto simp: configMatches_def)

lemma firstMatch_Some: "\<exists>c. firstMatch dflt configs request = Some c"
proof -
  have "configMatches request \<lparr>Requests = [], Config = dflt\<rparr>"
    by (simp add: configMatches_def)
  then have "\<exists>x \<in> set (rev (insertDefault dflt configs)). configMatches request x"
    by (auto simp: insertDefault_def)
  then show ?thesis
    unfolding firstMatch_def by (cases "find (configMatches request) (rev (insertDefault dflt configs))")
      (auto simp: find_None_iff)
qed

lemma assignResults_resultsOf:
  "assignResults alloc (insertDefault dflt configs) results m = Inr m' \<Longrightarrow>
   resultsOf m' k =
     resultsOf m k @
     filter (\<lambda>r. \<exists>c. firstMatch dflt configs (Request r) = Some c \<and> Config c = k) results"
proof (induction results arbitrary: m)
  case Nil
  then show ?case by simp
next
  case (Cons r results)
  obtain c where c: "firstMatch dflt configs (Request r) = Some c"
    using firstMatch_Some by blast
  from Cons.prems obtain d where "alloc (Device r) = Some d"
    by (auto split: option.splits)
  with Cons.prems have
    "assignResults alloc (insertDefault dflt configs) results
       (appendResult (Config c) r m) = Inr m'"
    using c by (simp add: assignResult_find firstMatch_def)
  from Cons.IH [OF this] show ?case
    using c by (simp add: resultsOf_appendResult)
qed

lemma assignResults_ok_iff:
  "(\<exists>m'. assignResults alloc configs results m = Inr m') \<longleftrightarrow>
   (\<forall>r \<in> set results. alloc (Device r) \<noteq> None)"
  by (induction results arbitrary: m) (auto split: option.splits)

lemma mset_appendResult:
  "mset (concat (map snd (appendResult k r m))) = add_mset r (mset (concat (map snd m)))"
  by (induction m) auto

lemma mset_assignResults:
  "assignResults alloc (insertDefault dflt configs) results m = Inr m' \<Longrightarrow>
   mset (concat (map snd m')) = mset (concat (map snd m)) + mset results"
proof (induction results arbitrary: m)
  case Nil
  then show ?case by simp
next
  case (Cons r results)
  obtain c where c: "firstMatch dflt configs (Request r) = Some c"
    using firstMatch_Some by blast
  from Cons.prems obtain d where "alloc (Device r) = Some d"
    by (auto split: option.splits)
  with Cons.prems have
    "assignResults alloc (insertDefault dflt configs) results
       (appendResult (Config c) r m) = Inr m'"
    using c by (simp add: assignResult_find firstMatch_def)
  from Cons.IH [OF this] show ?case
    by (simp add: mset_appendResult)
qed

lemma find_append:
  "find P (xs @ ys) = (case find P xs of None \<Rightarrow> find P ys | Some x \<Rightarrow> Some x)"
  by (induction xs) auto

lemma find_Some_set: "find P xs = Some x \<Longrightarrow> x \<in> set xs \<and> P x"
  by (induction xs) (auto split: if_splits)

lemma firstMatch_cases:
  "firstMatch dflt configs request =
     (case find (configMatches request) (rev configs) of
        None \<Rightarrow> Some \<lparr>Requests = [], Config = dflt\<rparr>
      | Some c \<Rightarrow> Some c)"
  by (simp add: firstMatch_def insertDefault_def find_append configMatches_def
      split: option.splits)

text \<open>
  Claim C1 (as amended). In both subsystems, when the map is built every allocation
  result lies in exactly one bucket: that of the first config, scanning from the most
  recently added down to the prepended default with its empty request list, whose request
  list is empty or contains the request of the result. The map is built exactly when
  every result's device is in the catalog. Every request has a first match. It is
  the prepended default when no supplied config matches the request, and otherwise the
  last supplied config that matches: a supplied config that matches and has no
  matching config after it is the one selected.
\<close>

theorem configResultsMap_first_match:
  "(getConfigResultsMap alloc dflt configs claim = Inr m \<longrightarrow>
      (\<exists>a. Allocation claim = Some a \<and>
           assignedByFirstMatch dflt configs (Devices_Results a) m)) \<and>
   (DeviceState_configResultsMap alloc dflt configs a = Inr m' \<longrightarrow>
      assignedByFirstMatch dflt configs (Devices_Results a) m') \<and>
   ((\<exists>m. DeviceState_configResultsMap alloc dflt configs a = Inr m) \<longleftrightarrow>
      (\<forall>r \<in> set (Devices_Results a). alloc (Device r) \<noteq> None)) \<and>
   (\<exists>c. firstMatch dflt configs request = Some c \<and> configMatches request c \<and>
        c \<in> set (insertDefault dflt configs)) \<and>
   (firstMatch dflt configs request = Some \<lparr>Requests = [], Config = dflt\<rparr> \<or>
      firstMatch dflt configs request = find (configMatches request) (rev configs)) \<and>
   ((\<forall>c \<in> set configs. \<not> configMatches request c) \<longrightarrow>
      firstMatch dflt configs request = Some \<lparr>Requests = [], Config = dflt\<rparr>) \<and>
   (configMatches request c \<and> (\<forall>c' \<in> set later. \<not> configMatches request c') \<longrightarrow>
      firstMatch dflt (earlier @ c # later) request = Some c)"
proof -
  have A: "assignedByFirstMatch dflt configs results m"
    if "assignResults alloc (insertDefault dflt configs) results [] = Inr m" for results m
    unfolding assignedByFirstMatch_def
    using mset_assignResults [OF that] assignResults_resultsOf [OF that]
    by (simp add: resultsOf_def)
  have 1: "getConfigResultsMap alloc dflt configs claim = Inr m \<longrightarrow>
      (\<exists>a. Allocation claim = Some a \<and>
           assignedByFirstMatch dflt configs (Devices_Results a) m)"
    by (auto simp: getConfigResultsMap_def A split: option.splits)
  have 2: "DeviceState_configResultsMap alloc dflt configs a = Inr m' \<longrightarrow>
      assignedByFirstMatch dflt configs (Devices_Results a) m'"
    by (simp add: DeviceState_configResultsMap_def A)
  have 3: "(\<exists>m. DeviceState_configResultsMap alloc dflt configs a = Inr m) \<longleftrightarrow>
      (\<forall>r \<in> set (Devices_Results a). alloc (Device r) \<noteq> None)"
    unfolding DeviceState_configResultsMap_def by (rule assignResults_ok_iff)
  have 4: "\<exists>c. firstMatch dflt configs request = Some c \<and> configMatches request c \<and>
        c \<in> set (insertDefault dflt configs)"
  proof -
    obtain c where c: "firstMatch dflt configs request = Some c"
      using firstMatch_Some by blast
    then have "configMatches request c \<and> c \<in> set (rev (insertDefault dflt configs))"
      unfolding firstMatch_def by (auto dest: find_Some_set)
    with c show ?thesis by auto
  qed
  have 5: "firstMatch dflt configs request = Some \<lparr>Requests = [], Config = dflt\<rparr> \<or>
      firstMatch dflt configs request = find (configMatches request) (rev configs)"
    by (simp add: firstMatch_cases split: option.splits)
  have 6: "(\<forall>c \<in> set configs. \<not> configMatches request c) \<longrightarrow>
      firstMatch dflt configs request = Some \<lparr>Requests = [], Config = dflt\<rparr>"
    by (auto simp: firstMatch_cases split: option.splits dest: find_Some_set)
  have 7: "configMatches request c \<and> (\<forall>c' \<in> set later. \<not> configMatches request c') \<longrightarrow>
      firstMatch dflt (earlier @ c # later) request = Some c"
  proof
    assume h: "configMatches request c \<and> (\<forall>c' \<in> set later. \<not> configMatches request c')"
    then have "find (configMatches request) (rev later) = None"
      by (simp add: find_None_iff)
    with h show "firstMatch dflt (earlier @ c # later) request = Some c"
      by (simp add: firstMatch_cases find_append)
  qed
  from 1 2 3 4 5 6 7 show ?thesis by blast
qed

theorem configResultsMap_first_match_witness:
  "getConfigResultsMap example_allocatable default_object [scoped_config] example_claim =
     Inr [(Config scoped_config, [result_a]), (default_object, [result_b])] \<and>
   assignedByFirstMatch default_object [scoped_config] [result_a, result_b]
     [(Config scoped_config, [result_a]), (default_object, [result_b])] \<and>
   firstMatch default_object [scoped_config] ''a'' = Some scoped_config \<and>
   firstMatch default_object [scoped_config] ''b'' = Some \<lparr>Requests = [], Config = default_object\<rparr>"
proof -
  let ?m = "[(Config scoped_config, [result_a]), (default_object, [result_b])]"
  have g: "getConfigResultsMap example_allocatable default_object [scoped_config] example_claim =
      Inr ?m"
    by (simp add: getConfigResultsMap_def example_claim_def insertDefault_def
        example_allocatable_def result_a_def result_b_def scoped_config_def default_object_def)
  have al: "Allocation example_claim =
      Some \<lparr>Devices_Results = [result_a, result_b], Devices_Config = []\<rparr>"
    by (simp add: example_claim_def)
  note t = configResultsMap_first_match [where alloc = example_allocatable
      and dflt = default_object and configs = "[scoped_config]" and claim = example_claim
      and m = ?m]
  have a: "assignedByFirstMatch default_object [scoped_config] [result_a, result_b] ?m"
    using t [THEN conjunct1] g al by auto
  have ma: "configMatches ''a'' scoped_config"
    by (simp add: configMatches_def scoped_config_def)
  have b: "firstMatch default_object [scoped_config] ''a'' = Some scoped_config"
    using configResultsMap_first_match [where dflt = default_object and request = "''a''"
        and c = scoped_config and earlier = "[]" and later = "[]"] ma
    by simp
  have nb: "\<not> configMatches ''b'' scoped_config"
    by (simp add: configMatches_def scoped_config_def)
  have c: "firstMatch default_object [scoped_config] ''b'' =
      Some \<lparr>Requests = [], Config = default_object\<rparr>"
    using configResultsMap_first_match [where dflt = default_object
        and configs = "[scoped_config]" and request = "''b''"] nb
    by simp
  from g a b c show ?thesis by blast
qed

text \<open>
  The claim as it was stated fails where a supplied config has no request list: the
  request \<open>b\<close> is named in no scoped config, and its result goes to that config, not to
  the prepended default, whose bucket stays empty.
\<close>

theorem configResultsMap_default_counterexample:
  "getConfigResultsMap example_allocatable default_object [unscoped_config] example_claim =
     Inr [(Config unscoped_config, [result_a, result_b])] \<and>
   ''b'' \<notin> set (Requests unscoped_config) \<and>
   Config unscoped_config \<noteq> default_object \<and>
   resultsOf [(Config unscoped_config, [result_a, result_b])] default_object = [] \<and>
   resultsOf [(Config unscoped_config, [result_a, result_b])] (Config unscoped_config) =
     [result_a, result_b]"
  by (simp add: getConfigResultsMap_def example_claim_def insertDefault_def
      example_allocatable_def result_a_def result_b_def unscoped_config_def default_object_def
      resultsOf_def)


section \<open>Properties of the container edits\<close>

lemma DeviceState_applyConfig_loop_other:
  "DeviceState_applyConfig_loop s results acc = Inr edits \<Longrightarrow>
   d \<notin> Device ` set results \<Longrightarrow> edits d = acc d"
  by (induction results arbitrary: acc) (auto split: option.splits sum.splits)

lemma DeviceState_applyConfig_loop_edits:
  "DeviceState_applyConfig_loop s results acc = Inr edits \<Longrightarrow> r \<in> set results \<Longrightarrow>
   \<exists>deviceInfo pciAddress.
     allocatable s (Device r) = Some deviceInfo \<and>
     derefStringValue deviceInfo ''pciAddress'' = Inr pciAddress \<and>
     edits (Device r) = Some \<lparr>Env = [''VF_DEVICE_'' @ Device r @ ''='' @ pciAddress]\<rparr>"
proof (induction results arbitrary: acc r)
  case Nil
  then show ?case by simp
next
  case (Cons x results)
  from Cons.prems(1) obtain deviceInfo pciAddress where
    a: "allocatable s (Device x) = Some deviceInfo" and
    p: "derefStringValue deviceInfo ''pciAddress'' = Inr pciAddress" and
    rest: "DeviceState_applyConfig_loop s results
             (acc(Device x \<mapsto> \<lparr>Env = [''VF_DEVICE_'' @ Device x @ ''='' @ pciAddress]\<rparr>)) = Inr edits"
    by (auto split: option.splits sum.splits)
  show ?case
  proof (cases "Device r \<in> Device ` set results")
    case True
    then obtain r' where r': "r' \<in> set results" "Device r' = Device r" by auto
    from Cons.IH [OF rest r'(1)] r'(2) show ?thesis by simp
  next
    case False
    with Cons.prems(2) have "r = x" by auto
    with DeviceState_applyConfig_loop_other [OF rest False] a p show ?thesis by simp
  qed
qed

lemma applyConfig_loop_other:
  "applyConfig_loop s ns cfg results acc w = (Inr out, w') \<Longrightarrow>
   d \<notin> Device ` set results \<Longrightarrow> fst out d = fst acc d"
  by (induction results arbitrary: acc w)
     (auto simp: Let_def split: option.splits sum.splits)

lemma applyConfig_loop_edits:
  "applyConfig_loop s ns cfg results acc w = (Inr out, w') \<Longrightarrow> r \<in> set results \<Longrightarrow>
   \<exists>deviceInfo pciAddress.
     allocatable s (Device r) = Some deviceInfo \<and>
     derefStringValue deviceInfo (AttributePciAddress (attributeKeys s)) = Inr pciAddress \<and>
     fst out (Device r) =
       Some \<lparr>Env = [''VF_DEVICE_'' @ ReplaceAll (Device r) (CHR ''-'') (CHR ''_'') @ ''='' @ pciAddress,
                    ''NET_ATTACH_DEF_NAME='' @ NetAttachDefName cfg]\<rparr>"
proof (induction results arbitrary: acc w r)
  case Nil
  then show ?case by simp
next
  case (Cons x results)
  from Cons.prems(1) obtain deviceInfo where
    a: "allocatable s (Device x) = Some deviceInfo"
    by (auto split: option.splits)
  from Cons.prems(1) a obtain pciAddress where
    p: "derefStringValue deviceInfo (AttributePciAddress (attributeKeys s)) = Inr pciAddress"
    by (auto split: sum.splits)
  define envs where "envs =
    [''VF_DEVICE_'' @ ReplaceAll (Device x) (CHR ''-'') (CHR ''_'') @ ''='' @ pciAddress,
     ''NET_ATTACH_DEF_NAME='' @ NetAttachDefName cfg]"
  from Cons.prems(1) a p obtain nad where
    n: "k8sClient_Get s (NetAttachDefName cfg) ns = Inr nad"
    by (auto simp: Let_def split: sum.splits)
  from Cons.prems(1) a p n obtain netConf where
    c: "AddDeviceIDToNetConf s nad pciAddress = Inr netConf"
    by (auto simp: Let_def split: sum.splits)
  define acc1 where "acc1 =
    ((fst acc)(Device x \<mapsto> \<lparr>Env = envs\<rparr>),
     (fst (snd acc))(Device x \<mapsto> netConf),
     (snd (snd acc))(Device x \<mapsto> IfName cfg))"
  define w1 where "w1 = emit (EvGetNetAttachDef (NetAttachDefName cfg) ns) w"
  from Cons.prems(1) a p n c have
    rest: "applyConfig_loop s ns cfg results acc1 w1 = (Inr out, w')"
    by (simp add: Let_def acc1_def w1_def envs_def)
  have e: "fst acc1 (Device x) = Some \<lparr>Env = envs\<rparr>"
    by (simp add: acc1_def)
  show ?case
  proof (cases "Device r \<in> Device ` set results")
    case True
    then obtain r' where r': "r' \<in> set results" "Device r' = Device r" by auto
    from Cons.IH [OF rest r'(1)] r'(2) show ?thesis by simp
  next
    case False
    with Cons.prems(2) have "r = x" by auto
    with applyConfig_loop_other [OF rest False] a p e show ?thesis by (simp add: envs_def)
  qed
qed

lemma derefStringValue_Inr:
  "derefStringValue deviceInfo key = Inr v \<longleftrightarrow>
   (\<exists>a. Attributes deviceInfo key = Some a \<and> StringValue a = Some v)"
  by (auto simp: derefStringValue_def split: option.splits)

text \<open>
  Claim C6 (as amended). When \<^verbatim>\<open>applyConfig\<close> succeeds, the container edits of every
  device among its results are, in the checkpoint-backed subsystem, the one variable
  \<open>VF_DEVICE_<deviceName>=<pciAddress>\<close>, and in the NRI-integrated subsystem the
  variable \<open>VF_DEVICE_<name>=<pciAddress>\<close> followed by \<open>NET_ATTACH_DEF_NAME=<name of
  the config's network attachment definition>\<close>, where \<open><name>\<close> is the device name
  with every dash replaced by an underscore. In both, \<open>pciAddress\<close> is the PCI address
  attribute of the device in the catalog.
\<close>

theorem applyConfig_environment:
  "(DeviceState_applyConfig s config results = Inr edits \<and> r \<in> set results \<longrightarrow>
      (\<exists>deviceInfo a pciAddress.
         allocatable s (Device r) = Some deviceInfo \<and>
         Attributes deviceInfo ''pciAddress'' = Some a \<and> StringValue a = Some pciAddress \<and>
         edits (Device r) = Some \<lparr>Env = [''VF_DEVICE_'' @ Device r @ ''='' @ pciAddress]\<rparr>)) \<and>
   (applyConfig s namespace vfConfig results w = (Inr (edits', netAttachDefs, ifNames), w') \<and>
    r \<in> set results \<longrightarrow>
      (\<exists>deviceInfo a pciAddress.
         allocatable s (Device r) = Some deviceInfo \<and>
         Attributes deviceInfo (AttributePciAddress (attributeKeys s)) = Some a \<and>
         StringValue a = Some pciAddress \<and>
         edits' (Device r) =
           Some \<lparr>Env = [''VF_DEVICE_'' @ ReplaceAll (Device r) (CHR ''-'') (CHR ''_'') @ ''='' @ pciAddress,
                        ''NET_ATTACH_DEF_NAME='' @ NetAttachDefName vfConfig]\<rparr>))"
proof (intro conjI impI)
  assume h: "DeviceState_applyConfig s config results = Inr edits \<and> r \<in> set results"
  then have "DeviceState_applyConfig_loop s results Map.empty = Inr edits" and "r \<in> set results"
    by (simp_all add: DeviceState_applyConfig_def)
  from DeviceState_applyConfig_loop_edits [OF this]
  show "\<exists>deviceInfo a pciAddress.
         allocatable s (Device r) = Some deviceInfo \<and>
         Attributes deviceInfo ''pciAddress'' = Some a \<and> StringValue a = Some pciAddress \<and>
         edits (Device r) = Some \<lparr>Env = [''VF_DEVICE_'' @ Device r @ ''='' @ pciAddress]\<rparr>"
    by (auto simp: derefStringValue_Inr)
next
  assume h: "applyConfig s namespace vfConfig results w = (Inr (edits', netAttachDefs, ifNames), w') \<and>
    r \<in> set results"
  then have "applyConfig_loop s namespace vfConfig results (Map.empty, Map.empty, Map.empty) w =
      (Inr (edits', netAttachDefs, ifNames), w')" and "r \<in> set results"
    by (simp_all add: applyConfig_def)
  from applyConfig_loop_edits [OF this]
  show "\<exists>deviceInfo a pciAddress.
         allocatable s (Device r) = Some deviceInfo \<and>
         Attributes deviceInfo (AttributePciAddress (attributeKeys s)) = Some a \<and>
         StringValue a = Some pciAddress \<and>
         edits' (Device r) =
           Some \<lparr>Env = [''VF_DEVICE_'' @ ReplaceAll (Device r) (CHR ''-'') (CHR ''_'') @ ''='' @ pciAddress,
                        ''NET_ATTACH_DEF_NAME='' @ NetAttachDefName vfConfig]\<rparr>"
    by (auto simp: derefStringValue_Inr)
qed

lemma example_applyConfig:
  "applyConfig example_collaborators ''default'' \<lparr>NetAttachDefName = ''net1'', IfName = ''vf0''\<rparr>
     [result_a] example_world =
   (Inr ([''0000-01-02-0'' \<mapsto>
            \<lparr>Env = [''VF_DEVICE_0000_01_02_0=0000:01:02.0'', ''NET_ATTACH_DEF_NAME=net1'']\<rparr>],
         [''0000-01-02-0'' \<mapsto> ''sriov-config-net1 deviceID=0000:01:02.0''],
         [''0000-01-02-0'' \<mapsto> ''vf0'']),
    \<lparr>trace = [EvGetNetAttachDef ''net1'' ''default''],
      checkpointFile = Inr Map.empty, podManager = []\<rparr>)"
  by (simp add: applyConfig_def example_collaborators_def example_allocatable_def result_a_def
      example_consts_def vfDevice_def derefStringValue_def ReplaceAll_def Let_def emit_def
      example_world_def)

lemma example_DeviceState_applyConfig:
  "DeviceState_applyConfig example_collaborators \<lparr>NetAttachDefName = ''net1'', IfName = ''vf0''\<rparr>
     [result_a, result_b] =
   Inr [''0000-01-02-0'' \<mapsto> \<lparr>Env = [''VF_DEVICE_0000-01-02-0=0000:01:02.0'']\<rparr>,
        ''0000-01-02-1'' \<mapsto> \<lparr>Env = [''VF_DEVICE_0000-01-02-1=0000:01:02.1'']\<rparr>]"
  by (simp add: DeviceState_applyConfig_def example_collaborators_def example_allocatable_def
      result_a_def result_b_def example_consts_def vfDevice_def derefStringValue_def)

theorem applyConfig_environment_witness:
  "DeviceState_applyConfig example_collaborators \<lparr>NetAttachDefName = ''net1'', IfName = ''vf0''\<rparr>
     [result_a, result_b] =
     Inr [''0000-01-02-0'' \<mapsto> \<lparr>Env = [''VF_DEVICE_0000-01-02-0=0000:01:02.0'']\<rparr>,
          ''0000-01-02-1'' \<mapsto> \<lparr>Env = [''VF_DEVICE_0000-01-02-1=0000:01:02.1'']\<rparr>] \<and>
   result_b \<in> set [result_a, result_b] \<and>
   (\<exists>deviceInfo a pciAddress.
      allocatable example_collaborators (Device result_b) = Some deviceInfo \<and>
      Attributes deviceInfo ''pciAddress'' = Some a \<and> StringValue a = Some pciAddress \<and>
      [''0000-01-02-0'' \<mapsto> \<lparr>Env = [''VF_DEVICE_0000-01-02-0=0000:01:02.0'']\<rparr>,
       ''0000-01-02-1'' \<mapsto> \<lparr>Env = [''VF_DEVICE_0000-01-02-1=0000:01:02.1'']\<rparr>] (Device result_b) =
        Some \<lparr>Env = [''VF_DEVICE_'' @ Device result_b @ ''='' @ pciAddress]\<rparr>) \<and>
   result_a \<in> set [result_a] \<and>
   (\<exists>deviceInfo a pciAddress.
      allocatable example_collaborators (Device result_a) = Some deviceInfo \<and>
      Attributes deviceInfo (AttributePciAddress (attributeKeys example_collaborators)) = Some a \<and>
      StringValue a = Some pciAddress \<and>
      [''0000-01-02-0'' \<mapsto>
         \<lparr>Env = [''VF_DEVICE_0000_01_02_0=0000:01:02.0'', ''NET_ATTACH_DEF_NAME=net1'']\<rparr>]
        (Device result_a) =
        Some \<lparr>Env = [''VF_DEVICE_'' @ ReplaceAll (Device result_a) (CHR ''-'') (CHR ''_'') @ ''='' @ pciAddress,
                     ''NET_ATTACH_DEF_NAME='' @ NetAttachDefName \<lparr>NetAttachDefName = ''net1'', IfName = ''vf0''\<rparr>]\<rparr>)"
proof -
  have ma: "result_a \<in> set [result_a]" and mb: "result_b \<in> set [result_a, result_b]"
    by simp_all
  note l = applyConfig_environment [THEN conjunct1, rule_format,
      OF conjI [OF example_DeviceState_applyConfig mb]]
  note n = applyConfig_environment [THEN conjunct2, rule_format,
      OF conjI [OF example_applyConfig ma]]
  from example_DeviceState_applyConfig ma mb l n show ?thesis by blast
qed

text \<open>
  The claim as it was stated fails in the NRI-integrated subsystem for a device name with
  a dash, as every discovered name has: the variable is named after the name with
  underscores.
\<close>

theorem applyConfig_device_name_counterexample:
  "applyConfig example_collaborators ''default'' \<lparr>NetAttachDefName = ''net1'', IfName = ''vf0''\<rparr>
     [result_a] example_world =
   (Inr ([''0000-01-02-0'' \<mapsto>
            \<lparr>Env = [''VF_DEVICE_0000_01_02_0=0000:01:02.0'', ''NET_ATTACH_DEF_NAME=net1'']\<rparr>],
         [''0000-01-02-0'' \<mapsto> ''sriov-config-net1 deviceID=0000:01:02.0''],
         [''0000-01-02-0'' \<mapsto> ''vf0'']),
    \<lparr>trace = [EvGetNetAttachDef ''net1'' ''default''],
      checkpointFile = Inr Map.empty, podManager = []\<rparr>) \<and>
   Device result_a = ''0000-01-02-0'' \<and>
   (\<exists>deviceInfo.
      allocatable example_collaborators ''0000-01-02-0'' = Some deviceInfo \<and>
      Attributes deviceInfo (AttributePciAddress (attributeKeys example_collaborators)) =
        Some \<lparr>StringValue = Some ''0000:01:02.0''\<rparr>) \<and>
   ''VF_DEVICE_0000-01-02-0=0000:01:02.0'' \<notin>
     set [''VF_DEVICE_0000_01_02_0=0000:01:02.0'', ''NET_ATTACH_DEF_NAME=net1'']"
proof -
  have "\<exists>deviceInfo.
      allocatable example_collaborators ''0000-01-02-0'' = Some deviceInfo \<and>
      Attributes deviceInfo (AttributePciAddress (attributeKeys example_collaborators)) =
        Some \<lparr>StringValue = Some ''0000:01:02.0''\<rparr>"
    by (simp add: example_collaborators_def example_allocatable_def example_consts_def
        vfDevice_def)
  moreover have "Device result_a = ''0000-01-02-0''"
    by (simp add: result_a_def)
  moreover have "''VF_DEVICE_0000-01-02-0=0000:01:02.0'' \<notin>
     set [''VF_DEVICE_0000_01_02_0=0000:01:02.0'', ''NET_ATTACH_DEF_NAME=net1'']"
    by simp
  ultimately show ?thesis using example_applyConfig by blast
qed

section \<open>Properties of the NRI-integrated prepare\<close>

lemma applyConfigs_ReservedFor:
  "applyConfigs s (claim\<lparr>ReservedFor := rf\<rparr>) m acc w = applyConfigs s claim m acc w"
  by (induction s claim m acc w rule: applyConfigs.induct)
     (auto split: Object.splits sum.splits option.splits prod.splits)

lemma getConfigResultsMap_ReservedFor:
  "getConfigResultsMap al d cs (claim\<lparr>ReservedFor := rf\<rparr>) = getConfigResultsMap al d cs claim"
  by (simp add: getConfigResultsMap_def)

lemma buildPreparedDevices_no_pod:
  "ReservedFor claim = [] \<Longrightarrow> results \<noteq> [] \<Longrightarrow>
   buildPreparedDevices s claim perDevice results acc =
     Inl (Panic ''index out of range [0] with length 0'')"
  by (cases results) (simp_all add: newPreparedDevice_def)

lemma buildPreparedDevices_length:
  "buildPreparedDevices s claim perDevice results acc = Inr devs \<Longrightarrow>
   length devs = length acc + length results"
  by (induction results arbitrary: acc) (auto split: sum.splits)

lemma buildPreparedDevices_pod:
  "ReservedFor claim \<noteq> [] \<Longrightarrow>
   \<exists>devs. buildPreparedDevices s claim perDevice results acc = Inr devs"
  by (induction results arbitrary: acc) (auto simp: newPreparedDevice_def split: list.splits)

lemma wrap_not_index_panic:
  "e \<noteq> Panic msg \<Longrightarrow> (\<And>x. f x \<noteq> Panic msg) \<Longrightarrow> wrap f e \<noteq> Panic msg"
  by (cases e) simp_all

lemma applyConfig_loop_no_index_panic:
  "fst (applyConfig_loop s ns cfg results acc w) \<noteq> Inl (Panic ''index out of range [0] with length 0'')"
  by (induction results arbitrary: acc w)
     (auto simp: Let_def derefStringValue_def split: option.splits sum.splits)

lemma applyConfigs_no_index_panic:
  "fst (applyConfigs s claim m acc w) \<noteq> Inl (Panic ''index out of range [0] with length 0'')"
proof (induction s claim m acc w rule: applyConfigs.induct)
  case (1 s claim acc w)
  then show ?case by simp
next
  case (2 s claim c results rest acc w)
  show ?case
  proof (cases c)
    case (OtherObj a)
    then show ?thesis by simp
  next
    case (VfConfigObj a castConfig)
    show ?thesis
    proof (cases "Normalize s castConfig")
      case (Inl err)
      with VfConfigObj show ?thesis by simp
    next
      case (Inr config)
      show ?thesis
      proof (cases "Validate s config")
        case (Some err)
        with VfConfigObj Inr show ?thesis by simp
      next
        case None
        obtain res w' where ac: "applyConfig s (Namespace claim) config results w = (res, w')"
          by (cases "applyConfig s (Namespace claim) config results w") auto
        show ?thesis
        proof (cases res)
          case (Inl err)
          from ac have "err \<noteq> Panic ''index out of range [0] with length 0''"
            using applyConfig_loop_no_index_panic
              [of s "Namespace claim" config results "(Map.empty, Map.empty, Map.empty)" w]
            by (simp add: applyConfig_def Inl)
          then have "wrap ErrApplying err \<noteq> Panic ''index out of range [0] with length 0''"
            by (rule wrap_not_index_panic) simp
          with VfConfigObj Inr None ac Inl show ?thesis by simp
        next
          case (Inr out)
          obtain e n i where out: "out = (e, n, i)" by (cases out) auto
          from "2.IH" [OF VfConfigObj \<open>Normalize s castConfig = Inr config\<close> None ac [symmetric, unfolded Inr out]]
          show ?thesis
            using VfConfigObj \<open>Normalize s castConfig = Inr config\<close> None ac Inr out by simp
        qed
      qed
    qed
  qed
qed

lemma prepareDevices_no_pod:
  assumes ok: "prepareDevices s (claim\<lparr>ReservedFor := pod # pods\<rparr>) w = (Inr devs, w1)"
      and ne: "devs \<noteq> []"
  shows "prepareDevices s (claim\<lparr>ReservedFor := []\<rparr>) w =
           (Inl (Panic ''index out of range [0] with length 0''), w1)"
proof -
  let ?cp = "claim\<lparr>ReservedFor := pod # pods\<rparr>" and ?c0 = "claim\<lparr>ReservedFor := []\<rparr>"
  from ok obtain a where a: "Allocation claim = Some a"
    by (auto simp: prepareDevices_def split: option.splits)
  from ok a obtain configs where c: "GetOpaqueDeviceConfigs s (Devices_Config a) = Inr configs"
    by (auto simp: prepareDevices_def split: sum.splits)
  from ok a c obtain m where
    m: "getConfigResultsMap (allocatable s) (DefaultVfConfig s) configs claim = Inr m"
    by (auto simp: prepareDevices_def getConfigResultsMap_ReservedFor split: sum.splits)
  from ok a c m obtain perDevice where
    ac: "applyConfigs s claim (rangeOrder s 0 m) (Map.empty, Map.empty, Map.empty) w =
           (Inr perDevice, w1)" and
    b: "buildPreparedDevices s ?cp perDevice (concat (map snd (rangeOrder s 1 m))) [] = Inr devs"
    by (auto simp: prepareDevices_def getConfigResultsMap_ReservedFor applyConfigs_ReservedFor
        split: sum.splits prod.splits)
  have "concat (map snd (rangeOrder s 1 m)) \<noteq> []"
    using buildPreparedDevices_length [OF b] ne
    by (metis add_0 length_0_conv list.size(3))
  then have "buildPreparedDevices s ?c0 perDevice (concat (map snd (rangeOrder s 1 m))) [] =
      Inl (Panic ''index out of range [0] with length 0'')"
    by (intro buildPreparedDevices_no_pod) simp_all
  with a c m ac show ?thesis
    by (simp add: prepareDevices_def getConfigResultsMap_ReservedFor applyConfigs_ReservedFor)
qed

lemma prepareDevices_no_index_panic:
  assumes "ReservedFor claim \<noteq> []"
  shows "fst (prepareDevices s claim w) \<noteq> Inl (Panic ''index out of range [0] with length 0'')"
proof (cases "Allocation claim")
  case None
  then show ?thesis by (simp add: prepareDevices_def)
next
  case (Some a)
  show ?thesis
  proof (cases "GetOpaqueDeviceConfigs s (Devices_Config a)")
    case (Inl err)
    with Some show ?thesis by (simp add: prepareDevices_def)
  next
    case (Inr configs)
    show ?thesis
    proof (cases "getConfigResultsMap (allocatable s) (DefaultVfConfig s) configs claim")
      case (Inl err)
      have "err \<noteq> Panic ''index out of range [0] with length 0''"
      proof -
        have "assignResults al cs rs m0 \<noteq> Inl (Panic msg)" for al cs rs m0 msg
          by (induction rs arbitrary: m0) (auto split: option.splits)
        with Inl Some show ?thesis by (auto simp: getConfigResultsMap_def)
      qed
      then have "wrap ErrGettingConfigResultsMap err \<noteq> Panic ''index out of range [0] with length 0''"
        by (rule wrap_not_index_panic) simp
      with Some \<open>GetOpaqueDeviceConfigs s (Devices_Config a) = Inr configs\<close> Inl
      show ?thesis by (simp add: prepareDevices_def)
    next
      case (Inr m)
      obtain res w' where ac:
        "applyConfigs s claim (rangeOrder s 0 m) (Map.empty, Map.empty, Map.empty) w = (res, w')"
        by (cases "applyConfigs s claim (rangeOrder s 0 m) (Map.empty, Map.empty, Map.empty) w") auto
      show ?thesis
      proof (cases res)
        case (Inl err)
        with applyConfigs_no_index_panic
          [of s claim "rangeOrder s 0 m" "(Map.empty, Map.empty, Map.empty)" w] ac
        have "err \<noteq> Panic ''index out of range [0] with length 0''" by auto
        with Some \<open>GetOpaqueDeviceConfigs s (Devices_Config a) = Inr configs\<close>
          \<open>getConfigResultsMap (allocatable s) (DefaultVfConfig s) configs claim = Inr m\<close> ac Inl
        show ?thesis by (simp add: prepareDevices_def)
      next
        case (Inr perDevice)
        from buildPreparedDevices_pod [OF assms] obtain devs where
          "buildPreparedDevices s claim perDevice (concat (map snd (rangeOrder s 1 m))) [] = Inr devs"
          by blast
        with Some \<open>GetOpaqueDeviceConfigs s (Devices_Config a) = Inr configs\<close>
          \<open>getConfigResultsMap (allocatable s) (DefaultVfConfig s) configs claim = Inr m\<close> ac Inr
        show ?thesis by (simp add: prepareDevices_def)
      qed
    qed
  qed
qed

text \<open>
  Claim C10 (as amended). \<^verbatim>\<open>PrepareDevices\<close> of the NRI-integrated manager reads
  \<^verbatim>\<open>claim.Status.ReservedFor[0]\<close> with no check of the length. Whenever a claim
  would be prepared with success if it had a reserving pod (it is allocated, its configs
  decode, every device is in the catalog, every selected config passes normalisation,
  validation and the lookup and conversion of its network attachment definition, and
  there is at least one result), the same claim with an empty \<^verbatim>\<open>ReservedFor\<close> list makes
  the index panic; the panic is not a returned error. With a non-empty list the index
  never panics. The only guard is in the driver's \<^verbatim>\<open>prepareResourceClaim\<close>, which
  answers a claim with an empty list by the error \<open>NoPodInfo\<close> and does not call the
  manager.
\<close>

theorem PrepareDevices_ReservedFor_panic:
  "(PrepareDevices s (claim\<lparr>ReservedFor := pod # pods\<rparr>) w = (Inr devs, w1) \<longrightarrow>
      (\<exists>w2. PrepareDevices s (claim\<lparr>ReservedFor := []\<rparr>) w =
          (Inl (Panic ''index out of range [0] with length 0''), w2))) \<and>
   (ReservedFor claim \<noteq> [] \<longrightarrow>
      fst (PrepareDevices s claim w) \<noteq> Inl (Panic ''index out of range [0] with length 0'')) \<and>
   (ReservedFor claim = [] \<longrightarrow>
      prepareResourceClaim s claim w =
        (\<lparr>Devices = [], Err = Some (ErrNoPodInfo (UID claim))\<rparr>, w))"
proof (intro conjI impI)
  let ?w0 = "emit (EvPrepareDevices (UID claim)) w"
  assume ok: "PrepareDevices s (claim\<lparr>ReservedFor := pod # pods\<rparr>) w = (Inr devs, w1)"
  then obtain w' where
    p: "prepareDevices s (claim\<lparr>ReservedFor := pod # pods\<rparr>) ?w0 = (Inr devs, w')" and
    ne: "devs \<noteq> []"
    by (auto simp: PrepareDevices_def split: sum.splits prod.splits if_splits option.splits)
  from prepareDevices_no_pod [OF p ne]
  show "\<exists>w2. PrepareDevices s (claim\<lparr>ReservedFor := []\<rparr>) w =
          (Inl (Panic ''index out of range [0] with length 0''), w2)"
    by (simp add: PrepareDevices_def)
next
  assume ne: "ReservedFor claim \<noteq> []"
  obtain res w' where p: "prepareDevices s claim (emit (EvPrepareDevices (UID claim)) w) = (res, w')"
    by (cases "prepareDevices s claim (emit (EvPrepareDevices (UID claim)) w)") auto
  show "fst (PrepareDevices s claim w) \<noteq> Inl (Panic ''index out of range [0] with length 0'')"
  proof (cases res)
    case (Inl err)
    with prepareDevices_no_index_panic [OF ne, of s "emit (EvPrepareDevices (UID claim)) w"] p
    have "err \<noteq> Panic ''index out of range [0] with length 0''" by auto
    then have "wrap ErrPrepareFailed err \<noteq> Panic ''index out of range [0] with length 0''"
      by (rule wrap_not_index_panic) simp
    with p Inl show ?thesis by (simp add: PrepareDevices_def)
  next
    case (Inr devs)
    with p show ?thesis by (simp add: PrepareDevices_def split: option.splits)
  qed
next
  assume "ReservedFor claim = []"
  then show "prepareResourceClaim s claim w =
        (\<lparr>Devices = [], Err = Some (ErrNoPodInfo (UID claim))\<rparr>, w)"
    by (simp add: prepareResourceClaim_def)
qed

lemma example_PrepareDevices_ok:
  "\<exists>devs w1. PrepareDevices example_collaborators example_claim example_world = (Inr devs, w1)"
  by (simp add: PrepareDevices_def prepareDevices_def getConfigResultsMap_def example_claim_def
      insertDefault_def example_collaborators_def example_allocatable_def result_a_def
      result_b_def scoped_config_def unscoped_config_def default_object_def applyConfig_def
      example_consts_def vfDevice_def derefStringValue_def ReplaceAll_def Let_def emit_def
      example_world_def newPreparedDevice_def)

theorem PrepareDevices_ReservedFor_panic_witness:
  "(\<exists>devs w1. PrepareDevices example_collaborators example_claim example_world = (Inr devs, w1)) \<and>
   (\<exists>w2. PrepareDevices example_collaborators (example_claim\<lparr>ReservedFor := []\<rparr>) example_world =
      (Inl (Panic ''index out of range [0] with length 0''), w2)) \<and>
   fst (PrepareDevices example_collaborators example_claim example_world) \<noteq>
     Inl (Panic ''index out of range [0] with length 0'') \<and>
   prepareResourceClaim example_collaborators (example_claim\<lparr>ReservedFor := []\<rparr>) example_world =
     (\<lparr>Devices = [], Err = Some (ErrNoPodInfo ''claim-1'')\<rparr>, example_world)"
proof -
  obtain devs w1 where
    ok: "PrepareDevices example_collaborators example_claim example_world = (Inr devs, w1)"
    using example_PrepareDevices_ok by blast
  have eq: "example_claim\<lparr>ReservedFor := [\<lparr>Consumer_UID = ''pod-1'', Consumer_Name = ''pod''\<rparr>]\<rparr> =
      example_claim"
    by (simp add: example_claim_def)
  note t = PrepareDevices_ReservedFor_panic [where s = example_collaborators
      and claim = example_claim and pod = "\<lparr>Consumer_UID = ''pod-1'', Consumer_Name = ''pod''\<rparr>"
      and pods = "[]" and w = example_world and devs = devs and ?w1.0 = w1]
  note u = PrepareDevices_ReservedFor_panic [where s = example_collaborators
      and claim = "example_claim\<lparr>ReservedFor := []\<rparr>" and w = example_world]
  have a: "\<exists>w2. PrepareDevices example_collaborators (example_claim\<lparr>ReservedFor := []\<rparr>) example_world =
      (Inl (Panic ''index out of range [0] with length 0''), w2)"
    using t [THEN conjunct1] ok by (simp add: eq)
  have ne: "ReservedFor example_claim \<noteq> []"
    by (simp add: example_claim_def)
  have b: "fst (PrepareDevices example_collaborators example_claim example_world) \<noteq>
     Inl (Panic ''index out of range [0] with length 0'')"
    using t [THEN conjunct2, THEN conjunct1] ne by simp
  have c: "prepareResourceClaim example_collaborators (example_claim\<lparr>ReservedFor := []\<rparr>) example_world =
     (\<lparr>Devices = [], Err = Some (ErrNoPodInfo ''claim-1'')\<rparr>, example_world)"
    using u [THEN conjunct2, THEN conjunct2] by (simp add: example_claim_def)
  from ok a b c show ?thesis by blast
qed

text \<open>
  The claim as it was stated fails where an earlier stage returns an error first: an
  allocated claim with an empty \<^verbatim>\<open>ReservedFor\<close> list whose devices are in the catalog
  but whose network attachment definition does not exist, and one with a second result
  whose device is not in the catalog, both get a returned error, not a panic.
\<close>

theorem PrepareDevices_ReservedFor_error_counterexample:
  "Allocation (example_claim\<lparr>ReservedFor := []\<rparr>) =
     Some \<lparr>Devices_Results = [result_a, result_b], Devices_Config = []\<rparr> \<and>
   allocatable example_collaborators_no_nad (Device result_a) \<noteq> None \<and>
   allocatable example_collaborators_no_nad (Device result_b) \<noteq> None \<and>
   ReservedFor (example_claim\<lparr>ReservedFor := []\<rparr>) = [] \<and>
   fst (PrepareDevices example_collaborators_no_nad (example_claim\<lparr>ReservedFor := []\<rparr>) example_world) =
     Inl (ErrPrepareFailed (ErrApplying (ErrGettingNetAttachDef ''net1'' (External ''not found'')))) \<and>
   Allocation (example_claim\<lparr>ReservedFor := [],
       Allocation := Some \<lparr>Devices_Results = [result_a, result_b\<lparr>Device := ''0000-09-00-0''\<rparr>],
                            Devices_Config = []\<rparr>\<rparr>) =
     Some \<lparr>Devices_Results = [result_a, result_b\<lparr>Device := ''0000-09-00-0''\<rparr>], Devices_Config = []\<rparr> \<and>
   fst (PrepareDevices example_collaborators
          (example_claim\<lparr>ReservedFor := [],
             Allocation := Some \<lparr>Devices_Results = [result_a, result_b\<lparr>Device := ''0000-09-00-0''\<rparr>],
                                  Devices_Config = []\<rparr>\<rparr>) example_world) =
     Inl (ErrPrepareFailed (ErrGettingConfigResultsMap (ErrRequestedNotAllocatable ''0000-09-00-0'')))"
  by (simp add: PrepareDevices_def prepareDevices_def getConfigResultsMap_def example_claim_def
      insertDefault_def example_collaborators_def example_collaborators_no_nad_def
      example_allocatable_def result_a_def
      result_b_def scoped_config_def unscoped_config_def default_object_def applyConfig_def
      example_consts_def vfDevice_def derefStringValue_def ReplaceAll_def Let_def emit_def
      example_world_def newPreparedDevice_def)

section \<open>Properties of the checkpoint-backed state, the driver hooks and the NRI plugin\<close>

lemma claimDevices_upd: "claimDevices (pc(u \<mapsto> ds)) u = ds"
  by (simp add: claimDevices_def)

lemma GetDevices_Nil_iff: "GetDevices pds = [] \<longleftrightarrow> pds = []"
  by (simp add: GetDevices_def)

lemma DeviceState_Prepare_present:
  assumes "checkpointFile w = Inr preparedClaims"
      and "preparedClaims (UID claim) = Some pds" and "pds \<noteq> []"
  shows "DeviceState_Prepare s claim w = (Inr (GetDevices pds), emit EvGetCheckpoint w)"
  using assms by (simp add: DeviceState_Prepare_def claimDevices_def Let_def)

lemma checkpointFile_emit [simp]: "checkpointFile (emit e w) = checkpointFile w"
  by (simp add: emit_def)

lemma podManager_emit [simp]: "podManager (emit e w) = podManager w"
  by (simp add: emit_def)

lemma DeviceState_Prepare_again:
  assumes ok: "DeviceState_Prepare s claim w = (Inr devs, w1)" and ne: "devs \<noteq> []"
  shows "DeviceState_Prepare s claim w1 = (Inr devs, emit EvGetCheckpoint w1)"
proof -
  from ok obtain pc where pc: "checkpointFile w = Inr pc"
    by (cases "checkpointFile w") (auto simp: DeviceState_Prepare_def Let_def)
  show ?thesis
  proof (cases "claimDevices pc (UID claim) \<noteq> []")
    case True
    with ok pc have d: "devs = GetDevices (claimDevices pc (UID claim))"
      and w1: "w1 = emit EvGetCheckpoint w"
      by (auto simp: DeviceState_Prepare_def Let_def)
    from True obtain pds where "pc (UID claim) = Some pds" "pds \<noteq> []"
      by (auto simp: claimDevices_def split: option.splits)
    with pc show ?thesis
      using DeviceState_Prepare_present [of w1 pc claim pds s] d w1
      by (simp add: claimDevices_def)
  next
    case False
    with ok pc obtain pds where
      d: "devs = GetDevices pds" and
      c: "checkpointFile w1 = Inr (pc(UID claim \<mapsto> pds))"
      by (auto simp: DeviceState_Prepare_def Let_def claimDevices_upd
          split: sum.splits option.splits)
    from d ne have "pds \<noteq> []" by (simp add: GetDevices_Nil_iff)
    with c d show ?thesis
      using DeviceState_Prepare_present [of w1 "pc(UID claim \<mapsto> pds)" claim pds s]
      by simp
  qed
qed

lemma map_of_PodManager_put: "map_of (PodManager_put k v pm) = (map_of pm)(k \<mapsto> v)"
  by (induction pm) (auto simp: fun_eq_iff)

lemma prepareResourceClaim_present:
  assumes "ReservedFor claim = [pod]"
      and "PodManager_Get (podManager w) (Consumer_UID pod) (UID claim) = (pds, True)"
  shows "prepareResourceClaim s claim w = (\<lparr>Devices = toKubeletDevices pds, Err = None\<rparr>, w)"
  using assms by (simp add: prepareResourceClaim_def)

lemma prepareResourceClaim_no_pod:
  "length (ReservedFor claim) = 0 \<Longrightarrow>
   prepareResourceClaim s claim w = (\<lparr>Devices = [], Err = Some (ErrNoPodInfo (UID claim))\<rparr>, w)"
  by (simp add: prepareResourceClaim_def)

lemma prepareResourceClaim_many_pods:
  "length (ReservedFor claim) > 1 \<Longrightarrow>
   prepareResourceClaim s claim w = (\<lparr>Devices = [], Err = Some (ErrMultiplePods (UID claim))\<rparr>, w)"
  by (cases "ReservedFor claim") (simp_all add: prepareResourceClaim_def)

lemma prepareResourceClaim_again:
  assumes ok: "prepareResourceClaim s claim w = (r, w1)" and ne: "Err r = None"
  shows "prepareResourceClaim s claim w1 = (r, w1)"
proof -
  have "length (ReservedFor claim) \<noteq> 0"
  proof
    assume "length (ReservedFor claim) = 0"
    from prepareResourceClaim_no_pod [OF this, of s w] ok have "Err r \<noteq> None" by auto
    with ne show False by simp
  qed
  moreover have "\<not> length (ReservedFor claim) > 1"
  proof
    assume "length (ReservedFor claim) > 1"
    from prepareResourceClaim_many_pods [OF this, of s w] ok have "Err r \<noteq> None" by auto
    with ne show False by simp
  qed
  ultimately have len: "length (ReservedFor claim) = 1" by arith
  then obtain pod where pod: "ReservedFor claim = [pod]"
    by (cases "ReservedFor claim") auto
  obtain pds found where g:
    "PodManager_Get (podManager w) (Consumer_UID pod) (UID claim) = (pds, found)"
    by (cases "PodManager_Get (podManager w) (Consumer_UID pod) (UID claim)") auto
  show ?thesis
  proof (cases found)
    case True
    with ok pod g show ?thesis by (simp add: prepareResourceClaim_def)
  next
    case False
    with ok ne pod g obtain devs w' pm' where
      r: "r = \<lparr>Devices = toKubeletDevices devs, Err = None\<rparr>" and
      s: "PodManager_Set s (Consumer_UID pod) (UID claim) devs (podManager w') = Inr pm'" and
      w1: "w1 = w'\<lparr>podManager := pm'\<rparr>"
      by (auto simp: prepareResourceClaim_def Let_def split: sum.splits prod.splits)
    from s have "pm' = PodManager_put (Consumer_UID pod, UID claim) devs (podManager w')"
      by (auto simp: PodManager_Set_def split: option.splits)
    then have "PodManager_Get (podManager w1) (Consumer_UID pod) (UID claim) = (devs, True)"
      by (simp add: w1 PodManager_Get_def map_of_PodManager_put)
    from prepareResourceClaim_present [OF pod this] r show ?thesis by simp
  qed
qed

text \<open>
  Claim C3. Prepare is idempotent. In the checkpoint-backed subsystem, a claim whose
  entry in the checkpointed \<^verbatim>\<open>PreparedClaims\<close> is not nil is answered with the devices of
  that entry, and the only call made is the read of the checkpoint: no CDI spec file is
  written and no checkpoint is written. So a second \<^verbatim>\<open>Prepare\<close> after one that
  returned devices returns the same devices and writes nothing. In the driver's hook, a
  claim whose pod and claim are recorded in the pod manager is answered with the
  recorded devices and the world is unchanged: the device-state manager is not called
  and no network attachment definition is looked up. So a second
  \<^verbatim>\<open>prepareResourceClaim\<close> after one without error returns the same result and changes
  nothing.
\<close>

theorem Prepare_idempotent:
  "(checkpointFile w = Inr preparedClaims \<and> preparedClaims (UID claim) = Some pds \<and> pds \<noteq> [] \<longrightarrow>
      DeviceState_Prepare s claim w = (Inr (GetDevices pds), emit EvGetCheckpoint w)) \<and>
   (DeviceState_Prepare s claim w = (Inr devs, w1) \<and> devs \<noteq> [] \<longrightarrow>
      DeviceState_Prepare s claim w1 = (Inr devs, emit EvGetCheckpoint w1)) \<and>
   (ReservedFor claim = [pod] \<and>
    PodManager_Get (podManager w) (Consumer_UID pod) (UID claim) = (prepared, True) \<longrightarrow>
      prepareResourceClaim s claim w = (\<lparr>Devices = toKubeletDevices prepared, Err = None\<rparr>, w)) \<and>
   (prepareResourceClaim s claim w = (r, w2) \<and> Err r = None \<longrightarrow>
      prepareResourceClaim s claim w2 = (r, w2))"
  using DeviceState_Prepare_present DeviceState_Prepare_again prepareResourceClaim_present
    prepareResourceClaim_again
  by blast

text \<open>
  Claim C7. Unprepare of an unknown claim succeeds and does nothing. In the
  checkpoint-backed subsystem, for a claim UID with no entry in the checkpointed
  \<^verbatim>\<open>PreparedClaims\<close>, \<^verbatim>\<open>Unprepare\<close> returns no error and its only call is the read of the
  checkpoint: no CDI spec file is deleted and the checkpoint is not written. In the
  driver's hook, for a claim the pod manager does not find (no entry has its UID),
  \<^verbatim>\<open>unprepareResourceClaim\<close> returns no error and leaves the world unchanged: the
  device-state manager's unprepare is not called.
\<close>

theorem Unprepare_unknown_claim:
  "(checkpointFile w = Inr preparedClaims \<and> preparedClaims claimUID = None \<longrightarrow>
      DeviceState_Unprepare s claimUID w = (None, emit EvGetCheckpoint w)) \<and>
   (\<not> snd (PodManager_GetByClaim (podManager w) claim) \<longrightarrow>
      unprepareResourceClaim s claim w = (None, w)) \<and>
   (snd (PodManager_GetByClaim (podManager w) claim) \<longleftrightarrow>
      (\<exists>e \<in> set (podManager w). snd (fst e) = Object_UID claim))"
proof (intro conjI impI)
  assume "checkpointFile w = Inr preparedClaims \<and> preparedClaims claimUID = None"
  then show "DeviceState_Unprepare s claimUID w = (None, emit EvGetCheckpoint w)"
    by (simp add: DeviceState_Unprepare_def claimDevices_def Let_def)
next
  assume "\<not> snd (PodManager_GetByClaim (podManager w) claim)"
  then obtain ds where "PodManager_GetByClaim (podManager w) claim = (ds, False)"
    by (cases "PodManager_GetByClaim (podManager w) claim") auto
  then show "unprepareResourceClaim s claim w = (None, w)"
    by (simp add: unprepareResourceClaim_def)
next
  show "snd (PodManager_GetByClaim (podManager w) claim) \<longleftrightarrow>
      (\<exists>e \<in> set (podManager w). snd (fst e) = Object_UID claim)"
    by (auto simp: PodManager_GetByClaim_def find_None_iff split: option.splits
        dest: find_Some_set)
qed

text \<open>
  Claim C9. For a pod sandbox with at least one prepared device in the pod manager and
  no network namespace, \<^verbatim>\<open>RunPodSandbox\<close> returns no error and \<^verbatim>\<open>StopPodSandbox\<close> returns
  an error, and neither calls the CNI runtime: the world is unchanged. For a pod with no
  entry in the pod manager both hooks return no error and leave the world unchanged.
\<close>

theorem PodSandbox_without_network_namespace:
  "(fst (PodManager_GetDevicesByPodUID (podManager w) (Uid pod)) \<noteq> [] \<and>
    getNetworkNamespace pod = [] \<longrightarrow>
      RunPodSandbox p pod w = (None, w) \<and>
      StopPodSandbox p pod w =
        (Some (ErrGettingNetworkNamespace (Sandbox_Name pod) (Sandbox_Namespace pod)), w)) \<and>
   ((\<forall>e \<in> set (podManager w). fst (fst e) \<noteq> Uid pod) \<longrightarrow>
      RunPodSandbox p pod w = (None, w) \<and> StopPodSandbox p pod w = (None, w))"
proof (intro conjI impI)
  assume h: "fst (PodManager_GetDevicesByPodUID (podManager w) (Uid pod)) \<noteq> [] \<and>
    getNetworkNamespace pod = []"
  have "filter (\<lambda>e. fst (fst e) = Uid pod) (podManager w) \<noteq> []"
  proof
    assume "filter (\<lambda>e. fst (fst e) = Uid pod) (podManager w) = []"
    then have "fst (PodManager_GetDevicesByPodUID (podManager w) (Uid pod)) = []"
      by (simp add: PodManager_GetDevicesByPodUID_def Let_def)
    with h show False by simp
  qed
  then obtain ds where f: "PodManager_GetDevicesByPodUID (podManager w) (Uid pod) = (ds, True)"
    by (simp add: PodManager_GetDevicesByPodUID_def Let_def)
  with h show "RunPodSandbox p pod w = (None, w)"
    by (simp add: RunPodSandbox_def)
  from f h show "StopPodSandbox p pod w =
        (Some (ErrGettingNetworkNamespace (Sandbox_Name pod) (Sandbox_Namespace pod)), w)"
    by (simp add: StopPodSandbox_def)
next
  assume "\<forall>e \<in> set (podManager w). fst (fst e) \<noteq> Uid pod"
  then have "filter (\<lambda>e. fst (fst e) = Uid pod) (podManager w) = []"
    by (simp add: filter_empty_conv)
  then have f: "PodManager_GetDevicesByPodUID (podManager w) (Uid pod) = ([], False)"
    by (simp add: PodManager_GetDevicesByPodUID_def Let_def)
  then show "RunPodSandbox p pod w = (None, w)"
    by (simp add: RunPodSandbox_def)
  from f show "StopPodSandbox p pod w = (None, w)"
    by (simp add: StopPodSandbox_def)
qed

section \<open>The example claim, prepared\<close>

lemmas example_defs =
  example_claim_def insertDefault_def example_collaborators_def example_allocatable_def
  result_a_def result_b_def scoped_config_def unscoped_config_def default_object_def
  example_consts_def vfDevice_def derefStringValue_def ReplaceAll_def Let_def emit_def
  example_world_def

lemma example_PrepareDevices:
  "PrepareDevices example_collaborators example_claim example_world =
     (Inr [example_device_b, example_device_a],
      example_prepared_world\<lparr>podManager := []\<rparr>)"
  by (simp add: PrepareDevices_def prepareDevices_def getConfigResultsMap_def applyConfig_def
      newPreparedDevice_def example_defs example_device_a_def example_device_b_def
      example_prepared_world_def)

lemma example_prepareResourceClaim:
  "prepareResourceClaim example_collaborators example_claim example_world =
     (\<lparr>Devices = toKubeletDevices [example_device_b, example_device_a], Err = None\<rparr>,
      example_prepared_world)"
proof -
  have r: "ReservedFor example_claim = [\<lparr>Consumer_UID = ''pod-1'', Consumer_Name = ''pod''\<rparr>]"
    and u: "UID example_claim = ''claim-1''"
    by (simp_all add: example_claim_def)
  have g: "PodManager_Get (podManager example_world) ''pod-1'' ''claim-1'' = ([], False)"
    by (simp add: PodManager_Get_def example_world_def)
  have s: "PodManager_Set example_collaborators ''pod-1'' ''claim-1''
      [example_device_b, example_device_a] [] =
      Inr [((''pod-1'', ''claim-1''), [example_device_b, example_device_a])]"
    by (simp add: PodManager_Set_def example_collaborators_def)
  show ?thesis
    by (simp add: prepareResourceClaim_def r u g example_PrepareDevices s)
       (simp add: example_prepared_world_def)
qed

lemma example_DeviceState_Prepare:
  "\<exists>devs w1. DeviceState_Prepare example_collaborators example_claim example_world = (Inr devs, w1) \<and>
     map DeviceName devs = [''0000-01-02-1'', ''0000-01-02-0''] \<and>
     trace w1 = [EvGetCheckpoint, EvCreateClaimSpecFile ''claim-1'', EvCreateCheckpoint]"
  by (simp add: DeviceState_Prepare_def DeviceState_prepareDevices_def
      DeviceState_configResultsMap_def DeviceState_applyConfig_def
      DeviceState_newPreparedDevice_def claimDevices_def GetDevices_def example_defs)

theorem Prepare_idempotent_witness:
  "(\<exists>devs w1.
      DeviceState_Prepare example_collaborators example_claim example_world = (Inr devs, w1) \<and>
      map DeviceName devs = [''0000-01-02-1'', ''0000-01-02-0''] \<and>
      trace w1 = [EvGetCheckpoint, EvCreateClaimSpecFile ''claim-1'', EvCreateCheckpoint] \<and>
      DeviceState_Prepare example_collaborators example_claim w1 =
        (Inr devs, emit EvGetCheckpoint w1)) \<and>
   prepareResourceClaim example_collaborators example_claim example_world =
     (\<lparr>Devices = toKubeletDevices [example_device_b, example_device_a], Err = None\<rparr>,
      example_prepared_world) \<and>
   prepareResourceClaim example_collaborators example_claim example_prepared_world =
     (\<lparr>Devices = toKubeletDevices [example_device_b, example_device_a], Err = None\<rparr>,
      example_prepared_world)"
proof -
  obtain devs w1 where
    ok: "DeviceState_Prepare example_collaborators example_claim example_world = (Inr devs, w1)" and
    n: "map DeviceName devs = [''0000-01-02-1'', ''0000-01-02-0'']" and
    t: "trace w1 = [EvGetCheckpoint, EvCreateClaimSpecFile ''claim-1'', EvCreateCheckpoint]"
    using example_DeviceState_Prepare by auto
  from n have ne: "devs \<noteq> []" by auto
  have a: "DeviceState_Prepare example_collaborators example_claim w1 =
      (Inr devs, emit EvGetCheckpoint w1)"
    using Prepare_idempotent [where s = example_collaborators and claim = example_claim
        and w = example_world and devs = devs and ?w1.0 = w1, THEN conjunct2, THEN conjunct1]
      ok ne by simp
  have b: "prepareResourceClaim example_collaborators example_claim example_prepared_world =
     (\<lparr>Devices = toKubeletDevices [example_device_b, example_device_a], Err = None\<rparr>,
      example_prepared_world)"
    using Prepare_idempotent [where s = example_collaborators and claim = example_claim
        and w = example_world and ?w2.0 = example_prepared_world
        and r = "\<lparr>Devices = toKubeletDevices [example_device_b, example_device_a], Err = None\<rparr>",
        THEN conjunct2, THEN conjunct2, THEN conjunct2]
      example_prepareResourceClaim by simp
  have A: "\<exists>devs w1.
      DeviceState_Prepare example_collaborators example_claim example_world = (Inr devs, w1) \<and>
      map DeviceName devs = [''0000-01-02-1'', ''0000-01-02-0''] \<and>
      trace w1 = [EvGetCheckpoint, EvCreateClaimSpecFile ''claim-1'', EvCreateCheckpoint] \<and>
      DeviceState_Prepare example_collaborators example_claim w1 =
        (Inr devs, emit EvGetCheckpoint w1)"
    using ok n t a by (intro exI [of _ devs] exI [of _ w1] conjI)
  show ?thesis
    using A example_prepareResourceClaim b by (intro conjI)
qed

theorem Unprepare_unknown_claim_witness:
  "DeviceState_Unprepare example_collaborators ''claim-9'' example_world =
     (None, emit EvGetCheckpoint example_world) \<and>
   unprepareResourceClaim example_collaborators
     \<lparr>Object_Name = ''gone'', Object_Namespace = ''default'', Object_UID = ''claim-9''\<rparr>
     example_prepared_world = (None, example_prepared_world)"
proof -
  let ?c = "\<lparr>Object_Name = ''gone'', Object_Namespace = ''default'', Object_UID = ''claim-9''\<rparr>"
  have "checkpointFile example_world = Inr Map.empty \<and> Map.empty ''claim-9'' = None"
    by (simp add: example_world_def)
  with Unprepare_unknown_claim [where w = example_world and preparedClaims = Map.empty
      and claimUID = "''claim-9''" and s = example_collaborators, THEN conjunct1]
  have a: "DeviceState_Unprepare example_collaborators ''claim-9'' example_world =
     (None, emit EvGetCheckpoint example_world)" by blast
  have "\<not> snd (PodManager_GetByClaim (podManager example_prepared_world) ?c)"
    by (simp add: PodManager_GetByClaim_def example_prepared_world_def)
  with Unprepare_unknown_claim [where w = example_prepared_world and claim = ?c
      and s = example_collaborators, THEN conjunct2, THEN conjunct1]
  have b: "unprepareResourceClaim example_collaborators ?c example_prepared_world =
      (None, example_prepared_world)" by blast
  from a b show ?thesis ..
qed

theorem PodSandbox_without_network_namespace_witness:
  "RunPodSandbox example_collaborators example_sandbox_host_network example_prepared_world =
     (None, example_prepared_world) \<and>
   StopPodSandbox example_collaborators example_sandbox_host_network example_prepared_world =
     (Some (ErrGettingNetworkNamespace ''pod'' ''default''), example_prepared_world) \<and>
   RunPodSandbox example_collaborators example_sandbox_no_claim example_prepared_world =
     (None, example_prepared_world) \<and>
   StopPodSandbox example_collaborators example_sandbox_no_claim example_prepared_world =
     (None, example_prepared_world)"
proof -
  have "fst (PodManager_GetDevicesByPodUID (podManager example_prepared_world)
          (Uid example_sandbox_host_network)) \<noteq> [] \<and>
        getNetworkNamespace example_sandbox_host_network = []"
    by (simp add: PodManager_GetDevicesByPodUID_def example_prepared_world_def
        example_sandbox_host_network_def getNetworkNamespace_def)
  with PodSandbox_without_network_namespace [where w = example_prepared_world
      and pod = example_sandbox_host_network and p = example_collaborators, THEN conjunct1]
  have a: "RunPodSandbox example_collaborators example_sandbox_host_network example_prepared_world =
       (None, example_prepared_world) \<and>
     StopPodSandbox example_collaborators example_sandbox_host_network example_prepared_world =
       (Some (ErrGettingNetworkNamespace (Sandbox_Name example_sandbox_host_network)
          (Sandbox_Namespace example_sandbox_host_network)), example_prepared_world)"
    by blast
  have "\<forall>e \<in> set (podManager example_prepared_world). fst (fst e) \<noteq> Uid example_sandbox_no_claim"
    by (simp add: example_prepared_world_def example_sandbox_no_claim_def)
  with PodSandbox_without_network_namespace [where w = example_prepared_world
      and pod = example_sandbox_no_claim and p = example_collaborators, THEN conjunct2]
  have b: "RunPodSandbox example_collaborators example_sandbox_no_claim example_prepared_world =
       (None, example_prepared_world) \<and>
     StopPodSandbox example_collaborators example_sandbox_no_claim example_prepared_world =
       (None, example_prepared_world)"
    by blast
  from a b show ?thesis by (simp add: example_sandbox_host_network_def)
qed

section \<open>Properties of the batch of claims\<close>

lemma prepareResourceClaim_rejected_world:
  "length (ReservedFor claim) \<noteq> 1 \<Longrightarrow> snd (prepareResourceClaim s claim w) = w"
  using prepareResourceClaim_no_pod [of claim s w] prepareResourceClaim_many_pods [of claim s w]
  by (cases "length (ReservedFor claim) = 0") auto

lemma prepareClaims_loop_dom:
  "prepareClaims_loop d claims result w = (result', w') \<Longrightarrow>
   dom result' = dom result \<union> UID ` set claims"
  by (induction claims arbitrary: result w) (auto split: prod.splits)

lemma prepareClaims_loop_other:
  "prepareClaims_loop d claims result w = (result', w') \<Longrightarrow>
   u \<notin> UID ` set claims \<Longrightarrow> result' u = result u"
  by (induction claims arbitrary: result w) (auto split: prod.splits)

lemma prepareClaims_loop_rejected:
  "prepareClaims_loop d claims result w = (result', w') \<Longrightarrow> distinct (map UID claims) \<Longrightarrow>
   claim \<in> set claims \<Longrightarrow> length (ReservedFor claim) \<noteq> 1 \<Longrightarrow>
   result' (UID claim) =
     Some \<lparr>Devices = [],
           Err = Some (if length (ReservedFor claim) = 0 then ErrNoPodInfo (UID claim)
                       else ErrMultiplePods (UID claim))\<rparr>"
proof (induction claims arbitrary: result w)
  case Nil
  then show ?case by simp
next
  case (Cons c claims)
  obtain r w1 where p: "prepareResourceClaim d c w = (r, w1)"
    by (cases "prepareResourceClaim d c w") auto
  with Cons.prems(1) have rest:
    "prepareClaims_loop d claims (result(UID c \<mapsto> r)) w1 = (result', w')"
    by simp
  show ?case
  proof (cases "claim = c")
    case True
    with Cons.prems(2) have "UID claim \<notin> UID ` set claims" by auto
    from prepareClaims_loop_other [OF rest this] True
    have "result' (UID claim) = Some r" by simp
    moreover have "r = \<lparr>Devices = [],
           Err = Some (if length (ReservedFor claim) = 0 then ErrNoPodInfo (UID claim)
                       else ErrMultiplePods (UID claim))\<rparr>"
      using p True Cons.prems(4) prepareResourceClaim_no_pod [of c d w]
        prepareResourceClaim_many_pods [of c d w]
      by (cases "length (ReservedFor c) = 0") auto
    ultimately show ?thesis by simp
  next
    case False
    with Cons.prems have "claim \<in> set claims" "distinct (map UID claims)" by auto
    from Cons.IH [OF rest this(2) this(1) Cons.prems(4)] show ?thesis .
  qed
qed

lemma prepareClaims_loop_world:
  "snd (prepareClaims_loop d claims result w) = snd (prepareClaims_loop d claims result2 w)"
  by (induction claims arbitrary: result result2 w) (auto split: prod.splits)

lemma prepareClaims_loop_filter:
  "snd (prepareClaims_loop d claims result w) =
   snd (prepareClaims_loop d (filter (\<lambda>c. length (ReservedFor c) = 1) claims) result w)"
proof (induction claims arbitrary: result w)
  case Nil
  then show ?case by simp
next
  case (Cons c claims)
  obtain r w1 where p: "prepareResourceClaim d c w = (r, w1)"
    by (cases "prepareResourceClaim d c w") auto
  let ?good = "\<lambda>c. length (ReservedFor c) = 1"
  have step: "snd (prepareClaims_loop d (c # claims) result w) =
      snd (prepareClaims_loop d claims (result(UID c \<mapsto> r)) w1)"
    using p by simp
  show ?case
  proof (cases "length (ReservedFor c) = 1")
    case True
    have "snd (prepareClaims_loop d claims (result(UID c \<mapsto> r)) w1) =
        snd (prepareClaims_loop d (filter ?good claims) (result(UID c \<mapsto> r)) w1)"
      by (rule Cons.IH)
    also have "\<dots> = snd (prepareClaims_loop d (filter ?good (c # claims)) result w)"
      using p True by simp
    finally show ?thesis using step by simp
  next
    case False
    from prepareResourceClaim_rejected_world [OF False, of d w] p have w1: "w1 = w" by simp
    have "snd (prepareClaims_loop d claims (result(UID c \<mapsto> r)) w1) =
        snd (prepareClaims_loop d (filter ?good claims) (result(UID c \<mapsto> r)) w)"
      unfolding w1 by (rule Cons.IH)
    also have "\<dots> = snd (prepareClaims_loop d (filter ?good claims) result w)"
      by (rule prepareClaims_loop_world)
    also have "\<dots> = snd (prepareClaims_loop d (filter ?good (c # claims)) result w)"
      using False by simp
    finally show ?thesis using step by simp
  qed
qed

lemma PrepareResourceClaims_filter:
  "snd (PrepareResourceClaims d claims w) =
   snd (PrepareResourceClaims d (filter (\<lambda>c. length (ReservedFor c) = 1) claims) w)"
proof -
  have e: "snd (PrepareResourceClaims d cs w) = snd (prepareClaims_loop d cs Map.empty w)" for cs
    by (cases cs) (auto simp: PrepareResourceClaims_def split: prod.splits)
  show ?thesis
    unfolding e by (rule prepareClaims_loop_filter)
qed

lemma extendsTrace_refl: "extendsTrace P w w"
  by (simp add: extendsTrace_def)

lemma extendsTrace_trans:
  "extendsTrace P w w1 \<Longrightarrow> extendsTrace P w1 w2 \<Longrightarrow> extendsTrace P w w2"
  by (auto simp: extendsTrace_def)

lemma extendsTrace_emit: "P e \<Longrightarrow> extendsTrace P w (emit e w)"
  by (simp add: extendsTrace_def emit_def)

lemma extendsTrace_weaken:
  "extendsTrace P w w' \<Longrightarrow> (\<And>e. P e \<Longrightarrow> Q e) \<Longrightarrow> extendsTrace Q w w'"
  by (auto simp: extendsTrace_def)

lemma extendsTrace_podManager:
  "extendsTrace P w w' \<Longrightarrow> extendsTrace P w (w'\<lparr>podManager := pm\<rparr>)"
  by (simp add: extendsTrace_def)

lemma applyConfig_loop_trace:
  "applyConfig_loop s ns cfg rs acc w = (res, w') \<Longrightarrow> extendsTrace notPrepare w w'"
proof (induction rs arbitrary: acc w)
  case Nil
  then show ?case by (simp add: extendsTrace_refl)
next
  case (Cons r rs)
  let ?w1 = "emit (EvGetNetAttachDef (NetAttachDefName cfg) ns) w"
  have e: "extendsTrace notPrepare w ?w1"
    by (rule extendsTrace_emit) (simp add: notPrepare_def)
  show ?case
  proof (cases "allocatable s (Device r)")
    case None
    with Cons.prems show ?thesis by (simp add: extendsTrace_refl)
  next
    case (Some deviceInfo)
    show ?thesis
    proof (cases "derefStringValue deviceInfo (AttributePciAddress (attributeKeys s))")
      case (Inl p)
      with Cons.prems Some show ?thesis by (simp add: extendsTrace_refl)
    next
      case (Inr pciAddress)
      note pci = Inr
      show ?thesis
      proof (cases "k8sClient_Get s (NetAttachDefName cfg) ns")
        case (Inl err)
        with Cons.prems Some pci have "w' = ?w1" by (simp add: Let_def)
        with e show ?thesis by simp
      next
        case (Inr nad)
        note nad = Inr
        show ?thesis
        proof (cases "AddDeviceIDToNetConf s nad pciAddress")
          case (Inl err)
          with Cons.prems Some pci nad have "w' = ?w1" by (simp add: Let_def)
          with e show ?thesis by simp
        next
          case (Inr netConf)
          with Cons.prems Some pci nad obtain acc1 where
            "applyConfig_loop s ns cfg rs acc1 ?w1 = (res, w')"
            by (simp add: Let_def)
          from extendsTrace_trans [OF e Cons.IH [OF this]] show ?thesis .
        qed
      qed
    qed
  qed
qed

lemma applyConfigs_trace:
  "applyConfigs s claim m acc w = (res, w') \<Longrightarrow> extendsTrace notPrepare w w'"
proof (induction m arbitrary: acc w)
  case Nil
  then show ?case by (simp add: extendsTrace_refl)
next
  case (Cons x m)
  obtain c results where x: "x = (c, results)" by (cases x) auto
  show ?case
  proof (cases c)
    case (OtherObj a)
    with Cons.prems x show ?thesis by (simp add: extendsTrace_refl)
  next
    case (VfConfigObj a castConfig)
    show ?thesis
    proof (cases "Normalize s castConfig")
      case (Inl err)
      with Cons.prems x VfConfigObj show ?thesis by (simp add: extendsTrace_refl)
    next
      case (Inr config)
      note cfg = Inr
      show ?thesis
      proof (cases "Validate s config")
        case (Some err)
        with Cons.prems x VfConfigObj cfg show ?thesis by (simp add: extendsTrace_refl)
      next
        case None
        obtain r1 w1 where ac: "applyConfig s (Namespace claim) config results w = (r1, w1)"
          by (cases "applyConfig s (Namespace claim) config results w") auto
        then have t1: "extendsTrace notPrepare w w1"
          unfolding applyConfig_def by (rule applyConfig_loop_trace)
        show ?thesis
        proof (cases r1)
          case (Inl err)
          with Cons.prems x VfConfigObj cfg None ac have "w' = w1" by simp
          with t1 show ?thesis by simp
        next
          case (Inr out)
          obtain e n i where out: "out = (e, n, i)" by (cases out) auto
          from Cons.prems x VfConfigObj cfg None ac Inr out obtain acc1 where
            "applyConfigs s claim m acc1 w1 = (res, w')"
            by simp
          from extendsTrace_trans [OF t1 Cons.IH [OF this]] show ?thesis .
        qed
      qed
    qed
  qed
qed


lemma prepareDevices_trace:
  assumes p: "prepareDevices s claim w = (res, w')"
  shows "extendsTrace notPrepare w w'"
proof (cases "Allocation claim")
  case None
  with p show ?thesis by (simp add: prepareDevices_def extendsTrace_refl)
next
  case (Some a)
  show ?thesis
  proof (cases "GetOpaqueDeviceConfigs s (Devices_Config a)")
    case (Inl err)
    with p Some show ?thesis by (simp add: prepareDevices_def extendsTrace_refl)
  next
    case (Inr configs)
    note configs = Inr
    show ?thesis
    proof (cases "getConfigResultsMap (allocatable s) (DefaultVfConfig s) configs claim")
      case (Inl err)
      with p Some configs show ?thesis by (simp add: prepareDevices_def extendsTrace_refl)
    next
      case (Inr m)
      obtain r1 w1 where ac:
        "applyConfigs s claim (rangeOrder s 0 m) (Map.empty, Map.empty, Map.empty) w = (r1, w1)"
        by (cases "applyConfigs s claim (rangeOrder s 0 m) (Map.empty, Map.empty, Map.empty) w") auto
      from p Some configs Inr ac have "w' = w1"
        by (cases r1) (simp_all add: prepareDevices_def)
      with applyConfigs_trace [OF ac] show ?thesis by simp
    qed
  qed
qed

lemma PrepareDevices_trace:
  assumes "PrepareDevices s claim w = (res, w')"
  shows "extendsTrace (\<lambda>e. \<forall>u. e = EvPrepareDevices u \<longrightarrow> u = UID claim) w w'"
proof -
  let ?P = "\<lambda>e. \<forall>u. e = EvPrepareDevices u \<longrightarrow> u = UID claim"
  let ?w0 = "emit (EvPrepareDevices (UID claim)) w"
  have a: "extendsTrace ?P w ?w0"
    by (rule extendsTrace_emit) simp
  obtain r1 w1 where p: "prepareDevices s claim ?w0 = (r1, w1)"
    by (cases "prepareDevices s claim ?w0") auto
  have b: "extendsTrace ?P ?w0 w1"
    by (rule extendsTrace_weaken [OF prepareDevices_trace [OF p]]) (simp add: notPrepare_def)
  have c: "extendsTrace ?P w1 (emit (EvCreateClaimSpecFile (UID claim)) w1)"
    by (rule extendsTrace_emit) simp
  have "w' = w1 \<or> w' = emit (EvCreateClaimSpecFile (UID claim)) w1"
  proof (cases r1)
    case (Inl err)
    with assms p show ?thesis by (simp add: PrepareDevices_def)
  next
    case (Inr devs)
    with assms p show ?thesis
      by (cases "CreateClaimSpecFile s devs") (simp_all add: PrepareDevices_def split: if_splits)
  qed
  then show ?thesis
  proof
    assume "w' = w1"
    with extendsTrace_trans [OF a b] show ?thesis by simp
  next
    assume "w' = emit (EvCreateClaimSpecFile (UID claim)) w1"
    with extendsTrace_trans [OF extendsTrace_trans [OF a b] c] show ?thesis by simp
  qed
qed

lemma prepareResourceClaim_trace:
  assumes "prepareResourceClaim d claim w = (r, w')"
  shows "extendsTrace
           (\<lambda>e. \<forall>u. e = EvPrepareDevices u \<longrightarrow> u = UID claim \<and> length (ReservedFor claim) = 1)
           w w'"
proof (cases "length (ReservedFor claim) = 1")
  case False
  from prepareResourceClaim_rejected_world [OF False, of d w] assms have "w' = w" by simp
  then show ?thesis by (simp add: extendsTrace_refl)
next
  case True
  let ?P = "\<lambda>e. \<forall>u. e = EvPrepareDevices u \<longrightarrow> u = UID claim \<and> length (ReservedFor claim) = 1"
  from True obtain pod where pod: "ReservedFor claim = [pod]"
    by (cases "ReservedFor claim") auto
  obtain pds found where g:
    "PodManager_Get (podManager w) (Consumer_UID pod) (UID claim) = (pds, found)"
    by (cases "PodManager_Get (podManager w) (Consumer_UID pod) (UID claim)") auto
  show ?thesis
  proof (cases found)
    case True
    with assms pod g have "w' = w" by (simp add: prepareResourceClaim_def)
    then show ?thesis by (simp add: extendsTrace_refl)
  next
    case False
    obtain r1 w1 where p: "PrepareDevices d claim w = (r1, w1)"
      by (cases "PrepareDevices d claim w") auto
    have t: "extendsTrace ?P w w1"
      by (rule extendsTrace_weaken [OF PrepareDevices_trace [OF p]]) (simp add: True)
    show ?thesis
    proof (cases r1)
      case (Inl err)
      with assms pod g False p have "w' = w1" by (simp add: prepareResourceClaim_def)
      with t show ?thesis by simp
    next
      case (Inr devs)
      show ?thesis
      proof (cases "PodManager_Set d (Consumer_UID pod) (UID claim) devs (podManager w1)")
        case (Inl err)
        with assms pod g False p \<open>r1 = Inr devs\<close> have "w' = w1"
          by (simp add: prepareResourceClaim_def)
        with t show ?thesis by simp
      next
        case (Inr pm')
        with assms pod g False p \<open>r1 = Inr devs\<close> have "w' = w1\<lparr>podManager := pm'\<rparr>"
          by (simp add: prepareResourceClaim_def)
        with extendsTrace_podManager [OF t] show ?thesis by simp
      qed
    qed
  qed
qed

lemma prepareClaims_loop_trace:
  "prepareClaims_loop d claims result w = (result', w') \<Longrightarrow>
   extendsTrace
     (\<lambda>e. \<forall>u. e = EvPrepareDevices u \<longrightarrow>
        (\<exists>c \<in> set claims. UID c = u \<and> length (ReservedFor c) = 1)) w w'"
proof (induction claims arbitrary: result w)
  case Nil
  then show ?case by (simp add: extendsTrace_refl)
next
  case (Cons c claims)
  obtain r w1 where p: "prepareResourceClaim d c w = (r, w1)"
    by (cases "prepareResourceClaim d c w") auto
  with Cons.prems have rest:
    "prepareClaims_loop d claims (result(UID c \<mapsto> r)) w1 = (result', w')"
    by simp
  have a: "extendsTrace
     (\<lambda>e. \<forall>u. e = EvPrepareDevices u \<longrightarrow>
        (\<exists>c' \<in> set (c # claims). UID c' = u \<and> length (ReservedFor c') = 1)) w w1"
    by (rule extendsTrace_weaken [OF prepareResourceClaim_trace [OF p]]) auto
  have b: "extendsTrace
     (\<lambda>e. \<forall>u. e = EvPrepareDevices u \<longrightarrow>
        (\<exists>c' \<in> set (c # claims). UID c' = u \<and> length (ReservedFor c') = 1)) w1 w'"
    by (rule extendsTrace_weaken [OF Cons.IH [OF rest]]) auto
  from extendsTrace_trans [OF a b] show ?case .
qed

text \<open>
  Claim C4. \<^verbatim>\<open>PrepareResourceClaims\<close> returns a nil top-level error and a result for
  every claim of the batch. A claim with no reserving pod gets the error result
  \<open>NoPodInfo\<close> and a claim with more than one gets \<open>MultiplePodsUnsupported\<close> (the
  batch having distinct UIDs, as the result map is keyed by UID). Such claims change
  nothing: the world after the batch is the world after the batch without them, and
  \<^verbatim>\<open>PrepareDevices\<close> of the device-state manager is entered only for claims with
  exactly one reserving pod.
\<close>

theorem PrepareResourceClaims_rejected_claims:
  "PrepareResourceClaims d claims w = ((result, err), w') \<longrightarrow>
     err = None \<and>
     dom result = UID ` set claims \<and>
     w' = snd (PrepareResourceClaims d (filter (\<lambda>c. length (ReservedFor c) = 1) claims) w) \<and>
     extendsTrace
       (\<lambda>e. \<forall>u. e = EvPrepareDevices u \<longrightarrow>
          (\<exists>c \<in> set claims. UID c = u \<and> length (ReservedFor c) = 1)) w w' \<and>
     (distinct (map UID claims) \<longrightarrow>
        (\<forall>claim \<in> set claims.
           (length (ReservedFor claim) = 0 \<longrightarrow>
              result (UID claim) = Some \<lparr>Devices = [], Err = Some (ErrNoPodInfo (UID claim))\<rparr>) \<and>
           (length (ReservedFor claim) > 1 \<longrightarrow>
              result (UID claim) = Some \<lparr>Devices = [], Err = Some (ErrMultiplePods (UID claim))\<rparr>)))"
proof
  assume p: "PrepareResourceClaims d claims w = ((result, err), w')"
  have l: "prepareClaims_loop d claims Map.empty w = (result, w')" and e: "err = None"
    using p by (cases claims; simp add: PrepareResourceClaims_def split: prod.splits)+
  have 1: "dom result = UID ` set claims"
    using prepareClaims_loop_dom [OF l] by simp
  have 2: "w' = snd (PrepareResourceClaims d (filter (\<lambda>c. length (ReservedFor c) = 1) claims) w)"
    using PrepareResourceClaims_filter [of d claims w] p by simp
  note 3 = prepareClaims_loop_trace [OF l]
  have 4: "result (UID claim) = Some \<lparr>Devices = [], Err = Some (ErrNoPodInfo (UID claim))\<rparr>"
    if "distinct (map UID claims)" "claim \<in> set claims" "length (ReservedFor claim) = 0" for claim
    using prepareClaims_loop_rejected [OF l that(1) that(2)] that(3) by simp
  have 5: "result (UID claim) = Some \<lparr>Devices = [], Err = Some (ErrMultiplePods (UID claim))\<rparr>"
    if "distinct (map UID claims)" "claim \<in> set claims" "length (ReservedFor claim) > 1" for claim
    using prepareClaims_loop_rejected [OF l that(1) that(2)] that(3) by auto
  from e 1 2 3 4 5 show "err = None \<and>
     dom result = UID ` set claims \<and>
     w' = snd (PrepareResourceClaims d (filter (\<lambda>c. length (ReservedFor c) = 1) claims) w) \<and>
     extendsTrace
       (\<lambda>e. \<forall>u. e = EvPrepareDevices u \<longrightarrow>
          (\<exists>c \<in> set claims. UID c = u \<and> length (ReservedFor c) = 1)) w w' \<and>
     (distinct (map UID claims) \<longrightarrow>
        (\<forall>claim \<in> set claims.
           (length (ReservedFor claim) = 0 \<longrightarrow>
              result (UID claim) = Some \<lparr>Devices = [], Err = Some (ErrNoPodInfo (UID claim))\<rparr>) \<and>
           (length (ReservedFor claim) > 1 \<longrightarrow>
              result (UID claim) = Some \<lparr>Devices = [], Err = Some (ErrMultiplePods (UID claim))\<rparr>)))"
    by blast
qed

theorem PrepareResourceClaims_rejected_claims_witness:
  "\<exists>result.
     PrepareResourceClaims example_collaborators example_batch example_world =
       ((result, None), example_prepared_world) \<and>
     dom result = {''claim-2'', ''claim-1'', ''claim-3''} \<and>
     result ''claim-2'' = Some \<lparr>Devices = [], Err = Some (ErrNoPodInfo ''claim-2'')\<rparr> \<and>
     result ''claim-3'' = Some \<lparr>Devices = [], Err = Some (ErrMultiplePods ''claim-3'')\<rparr>"
proof -
  obtain result err w' where
    p: "PrepareResourceClaims example_collaborators example_batch example_world = ((result, err), w')"
    by (metis prod.exhaust)
  note t = PrepareResourceClaims_rejected_claims [where d = example_collaborators
      and claims = example_batch and w = example_world and result = result and err = err
      and w' = w', rule_format, OF p]
  have f: "filter (\<lambda>c. length (ReservedFor c) = 1) example_batch = [example_claim]"
    by (simp add: example_batch_def example_claim_no_pod_def example_claim_two_pods_def
        example_claim_def)
  have e: "err = None"
    using t by simp
  have w: "w' = example_prepared_world"
    using t [THEN conjunct2, THEN conjunct2, THEN conjunct1, unfolded f]
    by (simp add: PrepareResourceClaims_def example_prepareResourceClaim)
  have d: "dom result = {''claim-2'', ''claim-1'', ''claim-3''}"
    using t [THEN conjunct2, THEN conjunct1]
    by (simp add: example_batch_def example_claim_no_pod_def example_claim_two_pods_def
        example_claim_def)
  have dist: "distinct (map UID example_batch)"
    by (simp add: example_batch_def example_claim_no_pod_def example_claim_two_pods_def
        example_claim_def)
  note r = t [THEN conjunct2, THEN conjunct2, THEN conjunct2, THEN conjunct2, rule_format, OF dist]
  have n: "result ''claim-2'' = Some \<lparr>Devices = [], Err = Some (ErrNoPodInfo ''claim-2'')\<rparr>"
    using r [of example_claim_no_pod, THEN conjunct1]
    by (simp add: example_batch_def example_claim_no_pod_def)
  have m: "result ''claim-3'' = Some \<lparr>Devices = [], Err = Some (ErrMultiplePods ''claim-3'')\<rparr>"
    using r [of example_claim_two_pods, THEN conjunct2]
    by (simp add: example_batch_def example_claim_two_pods_def)
  show ?thesis
    using p e w d n m by (intro exI [of _ result] conjI) simp_all
qed


section \<open>The checksum of a checkpoint\<close>















end
